theory Spec2Isabelle
  imports Main "HOL-Library.Sublist" "HOL-Library.Char_ord" "HOL-Library.List_Lexorder"
begin

section \<open>Go values shared by the three source files\<close>

text \<open>
  A Go \<^verbatim>\<open>error\<close> is modelled by where it was made: \<open>Errorf\<close> is an error built by
  \<^verbatim>\<open>fmt.Errorf\<close> in the code under study (it carries the formatted message),
  \<open>LibError\<close> is an error handed back by a library (net/http, io, encoding/json,
  keyring, survey, os; it carries the library's message), and \<open>InterruptErr\<close> is
  the sentinel \<^verbatim>\<open>terminal.InterruptErr\<close> that the command compares against with
  \<^verbatim>\<open>==\<close>. \<open>Error\<close> is the method \<^verbatim>\<open>err.Error()\<close>, which is what the verbs
  \<^verbatim>\<open>%s\<close>, \<^verbatim>\<open>%v\<close> and \<^verbatim>\<open>%w\<close> print.

  A Go result pair \<^verbatim>\<open>(T, error)\<close> is the sum \<open>error + T\<close>: \<open>Inl\<close> is a non-nil
  error. Every caller in the three files drops the value that comes with a non-nil
  error, so the sum loses nothing that is observed.
\<close>

datatype error = Errorf string | LibError string | InterruptErr

fun Error :: "error \<Rightarrow> string" where
  "Error (Errorf msg) = msg"
| "Error (LibError msg) = msg"
| "Error InterruptErr = ''interrupt''"

text \<open>
  \<^verbatim>\<open>strings.Contains(s, substr)\<close>: whether \<open>substr\<close> occurs in \<open>s\<close> as a contiguous
  run of bytes. The scan tries every start position from the left.
\<close>

fun strings_Contains :: "string \<Rightarrow> string \<Rightarrow> bool" where
  "strings_Contains [] substr = (substr = [])"
| "strings_Contains (c # cs) substr = (prefix substr (c # cs) \<or> strings_Contains cs substr)"

section \<open>internal/download/ipsw\_me.go: the firmware-index client\<close>

text \<open>
  \<^verbatim>\<open>time.Time\<close> is kept as an integer time stamp; no function of the file looks
  inside it.
\<close>

type_synonym Time = int

record IPSW =
  Identifier :: string
  Version :: string
  BuildID :: string
  SHA1 :: string
  MD5 :: string
  FileSize :: int
  URL :: string
  ReleaseDate :: Time
  UploadDate :: Time
  Signed :: bool

record Device =
  Name :: string
  Identifier :: string
  BoardConfig :: string
  Platform :: string
  CpID :: int
  BdID :: int
  Firmwares :: "IPSW list"

text \<open>
  The answer of \<^verbatim>\<open>http.Get\<close>: the fields of \<^verbatim>\<open>http.Response\<close> that the file
  reads. \<open>Body\<close> holds what \<^verbatim>\<open>io.ReadAll(res.Body)\<close> returns, an error or the
  bytes.
\<close>

record Response =
  StatusCode :: int
  Status :: string
  Body :: "error + string"

text \<open>
  The remote service and the JSON decoder are outside the repository. They are the
  fields of \<open>net\<close>: \<open>http_Get url w\<close> performs one request on the world \<open>w\<close> and
  returns the answer with the world after the request (the service may answer
  differently each time), and \<open>json_Unmarshal_*\<close> is \<^verbatim>\<open>json.Unmarshal\<close> into a
  zero value of the named Go type (each call site decodes into a fresh variable).
\<close>

record 'w net =
  http_Get :: "string \<Rightarrow> 'w \<Rightarrow> (error + Response) \<times> 'w"
  json_Unmarshal_Devices :: "string \<Rightarrow> error + Device list"
  json_Unmarshal_Device :: "string \<Rightarrow> error + Device"
  json_Unmarshal_IPSWs :: "string \<Rightarrow> error + IPSW list"
  json_Unmarshal_IPSW :: "string \<Rightarrow> error + IPSW"

definition ipswMeAPI :: string where
  "ipswMeAPI = ''https://api.ipsw.me/v4/''"

definition StatusOK :: int where
  "StatusOK = 200"

text \<open>\<^verbatim>\<open>GetAllDevices\<close> (lines 44-67).\<close>

definition GetAllDevices :: "'w net \<Rightarrow> 'w \<Rightarrow> (error + Device list) \<times> 'w" where
  "GetAllDevices env w =
     (case http_Get env (ipswMeAPI @ ''devices'') w of
        (Inl err, w') \<Rightarrow> (Inl err, w')
      | (Inr res, w') \<Rightarrow>
          if StatusCode res \<noteq> StatusOK
          then (Inl (Errorf (''api returned status: '' @ Status res)), w')
          else (case Body res of
                  Inl err \<Rightarrow> (Inl err, w')
                | Inr body \<Rightarrow>
                    (case json_Unmarshal_Devices env body of
                       Inl err \<Rightarrow> (Inl err, w')
                     | Inr devices \<Rightarrow> (Inr devices, w'))))"

text \<open>\<^verbatim>\<open>GetDevice\<close> (lines 94-117).\<close>

definition GetDevice :: "'w net \<Rightarrow> string \<Rightarrow> 'w \<Rightarrow> (error + Device) \<times> 'w" where
  "GetDevice env identifier w =
     (case http_Get env (ipswMeAPI @ ''device'' @ ''/'' @ identifier) w of
        (Inl err, w') \<Rightarrow> (Inl err, w')
      | (Inr res, w') \<Rightarrow>
          if StatusCode res \<noteq> StatusOK
          then (Inl (Errorf (''api returned status: '' @ Status res)), w')
          else (case Body res of
                  Inl err \<Rightarrow> (Inl err, w')
                | Inr body \<Rightarrow>
                    (case json_Unmarshal_Device env body of
                       Inl err \<Rightarrow> (Inl err, w')
                     | Inr d \<Rightarrow> (Inr d, w'))))"

text \<open>\<^verbatim>\<open>GetDeviceIPSWs\<close> (lines 143-149).\<close>

definition GetDeviceIPSWs :: "'w net \<Rightarrow> string \<Rightarrow> 'w \<Rightarrow> (error + IPSW list) \<times> 'w" where
  "GetDeviceIPSWs env identifier w =
     (let (r, w') = GetDevice env identifier w in
      case r of
        Inl err \<Rightarrow> (Inl err, w')
      | Inr d \<Rightarrow> (Inr (Firmwares d), w'))"

text \<open>\<^verbatim>\<open>GetAllIPSW\<close> (lines 152-175).\<close>

definition GetAllIPSW :: "'w net \<Rightarrow> string \<Rightarrow> 'w \<Rightarrow> (error + IPSW list) \<times> 'w" where
  "GetAllIPSW env version w =
     (case http_Get env (ipswMeAPI @ ''ipsw/'' @ version) w of
        (Inl err, w') \<Rightarrow> (Inl err, w')
      | (Inr res, w') \<Rightarrow>
          if StatusCode res \<noteq> StatusOK
          then (Inl (Errorf (''api returned status: '' @ Status res)), w')
          else (case Body res of
                  Inl err \<Rightarrow> (Inl err, w')
                | Inr body \<Rightarrow>
                    (case json_Unmarshal_IPSWs env body of
                       Inl err \<Rightarrow> (Inl err, w')
                     | Inr ipsws \<Rightarrow> (Inr ipsws, w'))))"

text \<open>\<^verbatim>\<open>GetIPSW\<close> (lines 178-202).\<close>

definition GetIPSW :: "'w net \<Rightarrow> string \<Rightarrow> string \<Rightarrow> 'w \<Rightarrow> (error + IPSW) \<times> 'w" where
  "GetIPSW env identifier buildID w =
     (case http_Get env (ipswMeAPI @ ''ipsw/'' @ identifier @ ''/'' @ buildID) w of
        (Inl err, w') \<Rightarrow> (Inl err, w')
      | (Inr res, w') \<Rightarrow>
          if StatusCode res \<noteq> StatusOK
          then (Inl (Errorf (''api returned status: '' @ Status res)), w')
          else (case Body res of
                  Inl err \<Rightarrow> (Inl err, w')
                | Inr body \<Rightarrow>
                    (case json_Unmarshal_IPSW env body of
                       Inl err \<Rightarrow> (Inl err, w')
                     | Inr i \<Rightarrow> (Inr i, w'))))"

text \<open>
  \<^verbatim>\<open>GetVersion\<close> (lines 205-241). \<open>GetVersion_firmwares\<close> is the inner
  \<^verbatim>\<open>for _, ipsw := range dev.Firmwares\<close>, which returns from the function at the
  first firmware with the build (\<open>Some\<close> of its version) or falls through (\<open>None\<close>).
  \<open>GetVersion_loop\<close> is the outer \<^verbatim>\<open>for i := len(devices) - 1; i >= 0; i--\<close> at
  the value \<open>i\<close> of the counter, with the request written inline as in the source.
  The counter starts below the length and only goes down, so \<^verbatim>\<open>devices[i]\<close> is
  always inside the slice; the facts about the loop are stated for such \<open>i\<close>.
\<close>

fun GetVersion_firmwares :: "IPSW list \<Rightarrow> string \<Rightarrow> string option" where
  "GetVersion_firmwares [] buildID = None"
| "GetVersion_firmwares (ipsw # rest) buildID =
     (if BuildID ipsw = buildID then Some (Version ipsw)
      else GetVersion_firmwares rest buildID)"

function GetVersion_loop ::
  "'w net \<Rightarrow> string \<Rightarrow> Device list \<Rightarrow> int \<Rightarrow> 'w \<Rightarrow> (error + string) \<times> 'w" where
  "GetVersion_loop env buildID devices i w =
     (if i \<ge> 0 then
        (case http_Get env (ipswMeAPI @ ''device/'' @ Device.Identifier (devices ! nat i)) w of
           (Inl err, w') \<Rightarrow> (Inl err, w')
         | (Inr res, w') \<Rightarrow>
             if StatusCode res \<noteq> StatusOK
             then (Inl (Errorf (''api returned status: '' @ Status res)), w')
             else (case Body res of
                     Inl err \<Rightarrow> (Inl err, w')
                   | Inr body \<Rightarrow>
                       (case json_Unmarshal_Device env body of
                          Inl err \<Rightarrow> (Inl err, w')
                        | Inr dev \<Rightarrow>
                            (case GetVersion_firmwares (Firmwares dev) buildID of
                               Some version \<Rightarrow> (Inr version, w')
                             | None \<Rightarrow> GetVersion_loop env buildID devices (i - 1) w'))))
      else (Inl (Errorf ''build did not a version''), w))"
  by pat_completeness auto
termination
  by (relation "measure (\<lambda>(env, buildID, devices, i, w). nat (i + 1))") auto

declare GetVersion_loop.simps [simp del]

definition GetVersion :: "'w net \<Rightarrow> string \<Rightarrow> 'w \<Rightarrow> (error + string) \<times> 'w" where
  "GetVersion env buildID w =
     (case GetAllDevices env w of
        (Inl err, w') \<Rightarrow>
          (Inl (Errorf (''failed to get all devices from ipsw.me API: '' @ Error err)), w')
      | (Inr devices, w') \<Rightarrow>
          GetVersion_loop env buildID devices (int (length devices) - 1) w')"

text \<open>
  \<^verbatim>\<open>GetBuildID\<close> (lines 244-272). \<open>GetBuildID_range\<close> is the
  \<^verbatim>\<open>for _, i := range ipsws\<close> with the final \<^verbatim>\<open>return\<close> after it.
\<close>

fun GetBuildID_range :: "IPSW list \<Rightarrow> string \<Rightarrow> string \<Rightarrow> error + string" where
  "GetBuildID_range [] version identifier =
     Inl (Errorf (''no build found for version '' @ version @ '' and device '' @ identifier))"
| "GetBuildID_range (i # rest) version identifier =
     (if IPSW.Identifier i = identifier then Inr (BuildID i)
      else GetBuildID_range rest version identifier)"

definition GetBuildID :: "'w net \<Rightarrow> string \<Rightarrow> string \<Rightarrow> 'w \<Rightarrow> (error + string) \<times> 'w" where
  "GetBuildID env version identifier w =
     (case http_Get env (ipswMeAPI @ ''ipsw/'' @ version) w of
        (Inl err, w') \<Rightarrow> (Inl err, w')
      | (Inr res, w') \<Rightarrow>
          if StatusCode res \<noteq> StatusOK
          then (Inl (Errorf (''api returned status: '' @ Status res)), w')
          else (case Body res of
                  Inl err \<Rightarrow> (Inl err, w')
                | Inr body \<Rightarrow>
                    (case json_Unmarshal_IPSWs env body of
                       Inl err \<Rightarrow> (Inl err, w')
                     | Inr ipsws \<Rightarrow> (GetBuildID_range ipsws version identifier, w'))))"

text \<open>
  The specification's wording of \<^verbatim>\<open>ResolveVersionFromBuild\<close>, for comparison with
  \<open>GetVersion\<close>: the devices are taken in the order given (the caller passes the
  catalog reversed), one \<open>GetDevice\<close> call is made per device, the version of the
  first firmware record with the build is returned, and the not-found error is
  returned only when the list is exhausted.
\<close>

fun ResolveVersionFromBuild_scan ::
  "'w net \<Rightarrow> string \<Rightarrow> Device list \<Rightarrow> 'w \<Rightarrow> (error + string) \<times> 'w" where
  "ResolveVersionFromBuild_scan env buildID [] w =
     (Inl (Errorf ''build did not a version''), w)"
| "ResolveVersionFromBuild_scan env buildID (d # ds) w =
     (case GetDevice env (Device.Identifier d) w of
        (Inl err, w') \<Rightarrow> (Inl err, w')
      | (Inr dev, w') \<Rightarrow>
          (case find (\<lambda>f. BuildID f = buildID) (Firmwares dev) of
             Some f \<Rightarrow> (Inr (Version f), w')
           | None \<Rightarrow> ResolveVersionFromBuild_scan env buildID ds w'))"

section \<open>pkg/xcode/xcode.go: the embedded device-trait dataset\<close>

record DeviceTrait =
  DeviceTraitSetID :: int
  PreferredArchitecture :: string
  ArtworkDeviceIdiom :: string
  ArtworkHostedIdioms :: string
  ArtworkScaleFactor :: int
  ArtworkDeviceSubtype :: int
  ArtworkDisplayGamut :: string
  ArtworkDynamicDisplayMode :: string
  DevicePerformanceMemoryClass :: int
  GraphicsFeatureSetClass :: string
  GraphicsFeatureSetFallbacks :: string

text \<open>The struct \<^verbatim>\<open>xcode.Device\<close>; the name \<open>Device\<close> is taken by the download package.\<close>

record xcode_Device =
  Target :: string
  TargetType :: string
  TargetVariant :: string
  Platform :: string
  ProductType :: string
  ProductDescription :: string
  CompatibleDeviceFallback :: string
  DeviceTrait :: DeviceTrait
  DeviceTraitSet :: int

text \<open>
  The struct returned by \<^verbatim>\<open>utils.DeconstructDevice\<close>. The package
  \<^verbatim>\<open>internal/utils\<close> is not among the sources; \<open>Less\<close> reads the three fields
  \<open>Family\<close> (printed with \<^verbatim>\<open>%s\<close>), \<open>Major\<close> and \<open>Minor\<close> (printed with \<^verbatim>\<open>%02d\<close>).
\<close>

record utils_Device =
  Family :: string
  Major :: int
  Minor :: int

text \<open>
  \<^verbatim>\<open>fmt.Sprintf("%02d", n)\<close> for a Go \<^verbatim>\<open>int\<close>: the decimal digits of the
  magnitude, zero-padded on the left to the width 2, or to the width 1 when a minus
  sign takes one column; then the sign. A magnitude with more digits is printed in
  full.
\<close>

definition digit :: "nat \<Rightarrow> char" where
  "digit n = ''0123456789'' ! (n mod 10)"

fun decimal :: "nat \<Rightarrow> string" where
  "decimal n = (if n < 10 then [digit n] else decimal (n div 10) @ [digit n])"

definition zero_pad :: "nat \<Rightarrow> string \<Rightarrow> string" where
  "zero_pad width ds = replicate (width - length ds) CHR ''0'' @ ds"

definition fmt_02d :: "int \<Rightarrow> string" where
  "fmt_02d n =
     (if n < 0 then CHR ''-'' # zero_pad 1 (decimal (nat (- n)))
      else zero_pad 2 (decimal (nat n)))"

text \<open>\<^verbatim>\<open>fmt.Sprintf("%s%02d%02d", dev.Family, dev.Major, dev.Minor)\<close>.\<close>

definition Sprintf_s02d02d :: "utils_Device \<Rightarrow> string" where
  "Sprintf_s02d02d dev = Family dev @ fmt_02d (Major dev) @ fmt_02d (Minor dev)"

text \<open>
  \<^verbatim>\<open>ByProductType.Less\<close> (lines 48-52). \<^verbatim>\<open>utils.DeconstructDevice\<close> is the
  parameter \<open>DeconstructDevice\<close>. Go compares strings byte by byte, a proper prefix
  first: the lexicographic order on \<open>string\<close>. An index outside the slice panics:
  \<open>None\<close>.
\<close>

definition Less ::
  "(string \<Rightarrow> utils_Device) \<Rightarrow> xcode_Device list \<Rightarrow> int \<Rightarrow> int \<Rightarrow> bool option" where
  "Less DeconstructDevice s i j =
     (if 0 \<le> i \<and> i < int (length s) \<and> 0 \<le> j \<and> j < int (length s) then
        (let devI = DeconstructDevice (ProductType (s ! nat i));
             devJ = DeconstructDevice (ProductType (s ! nat j))
         in Some (Sprintf_s02d02d devI < Sprintf_s02d02d devJ))
      else None)"

text \<open>\<^verbatim>\<open>Devices.Len\<close> (line 43).\<close>

definition Len :: "xcode_Device list \<Rightarrow> int" where
  "Len d = int (length d)"

text \<open>
  \<^verbatim>\<open>sort.IsSorted\<close> of Go's standard library, which states what \<^verbatim>\<open>sort.Sort\<close>
  establishes: \<^verbatim>\<open>for i := n - 1; i > 0; i-- { if data.Less(i, i-1) { return false } }\<close>
  and \<^verbatim>\<open>return true\<close>. \<open>lessf\<close> is the method \<^verbatim>\<open>Less\<close> of the data and \<open>n\<close> its
  \<^verbatim>\<open>Len()\<close>; a panic of \<open>lessf\<close> is passed on.
\<close>

function sort_IsSorted_loop :: "(int \<Rightarrow> int \<Rightarrow> bool option) \<Rightarrow> int \<Rightarrow> bool option" where
  "sort_IsSorted_loop lessf i =
     (if i > 0 then
        (case lessf i (i - 1) of
           None \<Rightarrow> None
         | Some b \<Rightarrow> if b then Some False else sort_IsSorted_loop lessf (i - 1))
      else Some True)"
  by pat_completeness auto
termination
  by (relation "measure (\<lambda>(lessf, i). nat i)") auto

declare sort_IsSorted_loop.simps [simp del]

definition sort_IsSorted :: "(int \<Rightarrow> int \<Rightarrow> bool option) \<Rightarrow> int \<Rightarrow> bool option" where
  "sort_IsSorted lessf n = sort_IsSorted_loop lessf (n - 1)"

text \<open>
  Modelled from the spec: \<^verbatim>\<open>utils.DeconstructDevice\<close>, whose source is missing. The
  spec calls its result "a deconstructed family/major/minor tuple" and reads
  \<^verbatim>\<open>iPhone10,1\<close> as family \<^verbatim>\<open>iPhone\<close>, major 10, minor 1: the family is the text
  before the first digit, the major the digits up to the comma, the minor the digits
  after it. It is used only to instantiate the parameter of \<open>Less\<close> at the spec's
  example.
\<close>

definition is_digit :: "char \<Rightarrow> bool" where
  "is_digit c = (c \<in> set ''0123456789'')"

definition digit_value :: "char \<Rightarrow> int" where
  "digit_value c = int (length (takeWhile (\<lambda>d. d \<noteq> c) ''0123456789''))"

definition atoi :: "string \<Rightarrow> int" where
  "atoi ds = foldl (\<lambda>acc c. 10 * acc + digit_value c) 0 ds"

definition DeconstructDevice_spec :: "string \<Rightarrow> utils_Device" where
  "DeconstructDevice_spec prd =
     (let fam = takeWhile (\<lambda>c. \<not> is_digit c) prd;
          rest = dropWhile (\<lambda>c. \<not> is_digit c) prd;
          maj = takeWhile is_digit rest;
          mnr = takeWhile is_digit (drop 1 (dropWhile is_digit rest))
      in \<lparr>Family = fam, Major = atoi maj, Minor = atoi mnr\<rparr>)"

text \<open>
  The package variable \<^verbatim>\<open>traitsData\<close> (filled by \<^verbatim>\<open>go:embed\<close>) is the state of the
  package; every function takes it and returns it, so that an assignment would show.
  \<^verbatim>\<open>gzip.NewReader\<close> and \<^verbatim>\<open>json.NewDecoder(zr).Decode\<close> are library functions of
  the bytes they are given: the fields of \<open>codec\<close>, with \<open>'z\<close> the reader.
\<close>

record xcode_pkg =
  traitsData :: string

record 'z codec =
  gzip_NewReader :: "string \<Rightarrow> error + 'z"
  json_Decode_Devices :: "'z \<Rightarrow> error + xcode_Device list"

text \<open>\<^verbatim>\<open>GetDevices\<close> (lines 107-121).\<close>

definition GetDevices :: "'z codec \<Rightarrow> xcode_pkg \<Rightarrow> (error + xcode_Device list) \<times> xcode_pkg" where
  "GetDevices lib pkg =
     (case gzip_NewReader lib (traitsData pkg) of
        Inl err \<Rightarrow> (Inl err, pkg)
      | Inr zr \<Rightarrow>
          (case json_Decode_Devices lib zr of
             Inl err \<Rightarrow>
               (Inl (Errorf (''failed unmarshaling device_traits.gz data: '' @ Error err)), pkg)
           | Inr devices \<Rightarrow> (Inr devices, pkg)))"

text \<open>
  \<^verbatim>\<open>GetDeviceForProd\<close> (lines 124-138) and \<^verbatim>\<open>GetDeviceForModel\<close> (lines 141-155);
  the \<open>_range\<close> functions are their \<^verbatim>\<open>for _, device := range devices\<close> with the
  \<^verbatim>\<open>return\<close> after it. The Go functions return a pointer to a copy of the record;
  the model returns the record. The Go parameter \<^verbatim>\<open>prod\<close> is written \<open>prd\<close>.
\<close>

fun GetDeviceForProd_range :: "xcode_Device list \<Rightarrow> string \<Rightarrow> error + xcode_Device" where
  "GetDeviceForProd_range [] prd = Inl (Errorf ''device not found'')"
| "GetDeviceForProd_range (device # rest) prd =
     (if ProductType device = prd then Inr device else GetDeviceForProd_range rest prd)"

definition GetDeviceForProd ::
  "'z codec \<Rightarrow> string \<Rightarrow> xcode_pkg \<Rightarrow> (error + xcode_Device) \<times> xcode_pkg" where
  "GetDeviceForProd lib prd pkg =
     (case GetDevices lib pkg of
        (Inl err, pkg') \<Rightarrow> (Inl err, pkg')
      | (Inr devices, pkg') \<Rightarrow> (GetDeviceForProd_range devices prd, pkg'))"

fun GetDeviceForModel_range :: "xcode_Device list \<Rightarrow> string \<Rightarrow> error + xcode_Device" where
  "GetDeviceForModel_range [] model = Inl (Errorf ''device not found'')"
| "GetDeviceForModel_range (device # rest) model =
     (if Target device = model then Inr device else GetDeviceForModel_range rest model)"

definition GetDeviceForModel ::
  "'z codec \<Rightarrow> string \<Rightarrow> xcode_pkg \<Rightarrow> (error + xcode_Device) \<times> xcode_pkg" where
  "GetDeviceForModel lib model pkg =
     (case GetDevices lib pkg of
        (Inl err, pkg') \<Rightarrow> (Inl err, pkg')
      | (Inr devices, pkg') \<Rightarrow> (GetDeviceForModel_range devices model, pkg'))"

section \<open>cmd/ipsw/cmd/download/download\_dev.go: the dev command\<close>

text \<open>
  How \<^verbatim>\<open>RunE\<close> ends: it returns (\<open>Return None\<close> is \<^verbatim>\<open>return nil\<close>) or the process
  leaves through \<^verbatim>\<open>os.Exit\<close>. A block of \<^verbatim>\<open>RunE\<close> either hands a value to the next
  block (\<open>Next\<close>) or ends the run (\<open>Stop\<close>). A keyring call may run the password
  callback, which may call \<^verbatim>\<open>os.Exit\<close>: it returns (\<open>Ret\<close>) or the process has
  left (\<open>Exited\<close>).
\<close>

datatype outcome = Return "error option" | os_Exit int

datatype 'a step = Next 'a | Stop outcome

datatype 'a called = Ret 'a | Exited int

text \<open>
  \<^verbatim>\<open>os.Stat\<close>: the file is there, or the error satisfies
  \<^verbatim>\<open>errors.Is(err, os.ErrNotExist)\<close>, or it is another error.
\<close>

datatype stat_result = Stat_ok | Stat_ErrNotExist | Stat_error error

text \<open>The prompts of the survey library that the command builds.\<close>

datatype prompt =
    survey_Input string
  | survey_Password string
  | survey_Select string "string list"

record keyring_Item =
  Key :: string
  Data :: string
  Label :: string
  Description :: string

record DevCreds =
  Username :: string
  Password :: string

record DevConfig =
  Proxy :: string
  Insecure :: bool
  SkipAll :: bool
  ResumeAll :: bool
  RestartAll :: bool
  RemoveCommas :: bool
  PreferSMS :: bool
  PageSize :: int
  WatchList :: "string list"
  Verbose :: bool

text \<open>
  The values that \<^verbatim>\<open>RunE\<close> reads from viper, under the names of its local
  variables (\<open>more_flag\<close> is the local \<^verbatim>\<open>more\<close>, \<open>output_dir\<close> the local
  \<^verbatim>\<open>output\<close>, \<open>verbose\<close> is \<^verbatim>\<open>viper.GetBool("verbose")\<close>).
\<close>

record Settings =
  verbose :: bool
  proxy :: string
  insecure :: bool
  skipAll :: bool
  resumeAll :: bool
  restartAll :: bool
  removeCommas :: bool
  watchList :: "string list"
  more_flag :: bool
  pageSize :: int
  sms :: bool
  asJSON :: bool
  prettyJSON :: bool
  output_dir :: string
  username :: string
  password :: string
  keychain :: string

text \<open>
  The closure \<^verbatim>\<open>FilePasswordFunc\<close> captures the local variable \<^verbatim>\<open>keychain\<close> and
  writes to it. A call of the closure, and so every keyring call, works on the pair
  of that variable and the world.
\<close>

type_synonym 'w proc = "string \<times> 'w"

record 'w keyring_Config =
  ServiceName :: string
  KeychainSynchronizable :: bool
  KeychainAccessibleWhenUnlocked :: bool
  FileDir :: string
  FilePasswordFunc :: "string \<Rightarrow> 'w proc \<Rightarrow> (error + string) called \<times> 'w proc"

text \<open>
  Everything outside the file: the three constants of the package
  \<^verbatim>\<open>internal/download\<close>, the libraries, the operating system, the terminal, the
  keyring and the portal session \<^verbatim>\<open>app\<close>. Each effectful operation takes the world
  and returns the world after it. The keyring operations receive the configuration
  that \<^verbatim>\<open>keyring.Open\<close> was given (the ring holds it), so they can run its callback.
  \<open>json_Unmarshal_DevCreds\<close> decodes into a zero \<^verbatim>\<open>DevCreds\<close>.
\<close>

record 'w sys =
  KeychainServiceName :: string
  VaultName :: string
  AppName :: string
  filepath_Join :: "string list \<Rightarrow> string"
  json_Marshal_DevCreds :: "DevCreds \<Rightarrow> error + string"
  json_Unmarshal_DevCreds :: "string \<Rightarrow> error + DevCreds"
  os_UserHomeDir :: "'w \<Rightarrow> (error + string) \<times> 'w"
  os_Stat :: "string \<Rightarrow> 'w \<Rightarrow> stat_result \<times> 'w"
  os_WriteFile :: "string \<Rightarrow> string \<Rightarrow> int \<Rightarrow> 'w \<Rightarrow> error option \<times> 'w"
  survey_AskOne :: "prompt \<Rightarrow> 'w \<Rightarrow> (error + string) \<times> 'w"
  log_SetLevel_Debug :: "'w \<Rightarrow> 'w"
  log_Warn :: "string \<Rightarrow> 'w \<Rightarrow> 'w"
  log_Errorf :: "string \<Rightarrow> 'w \<Rightarrow> 'w"
  log_Infof :: "string \<Rightarrow> 'w \<Rightarrow> 'w"
  fmt_Println :: "string \<Rightarrow> 'w \<Rightarrow> 'w"
  keyring_Open :: "'w keyring_Config \<Rightarrow> 'w proc \<Rightarrow> error option called \<times> 'w proc"
  ring_Get :: "'w keyring_Config \<Rightarrow> string \<Rightarrow> 'w proc \<Rightarrow> (error + keyring_Item) called \<times> 'w proc"
  ring_Set :: "'w keyring_Config \<Rightarrow> keyring_Item \<Rightarrow> 'w proc \<Rightarrow> error option called \<times> 'w proc"
  NewDevPortal :: "DevConfig \<Rightarrow> 'w \<Rightarrow> 'w"
  app_Login :: "string \<Rightarrow> string \<Rightarrow> 'w \<Rightarrow> error option \<times> 'w"
  app_Watch :: "'w \<Rightarrow> error option \<times> 'w"
  app_GetDownloadsAsJSON :: "string \<Rightarrow> bool \<Rightarrow> 'w \<Rightarrow> (error + string) \<times> 'w"
  app_DownloadPrompt :: "string \<Rightarrow> 'w \<Rightarrow> error option \<times> 'w"

text \<open>
  The closure \<^verbatim>\<open>FilePasswordFunc\<close> (lines 125-144), with \<^verbatim>\<open>home\<close> captured by
  value and \<^verbatim>\<open>keychain\<close> as the first component \<open>kc\<close> of the state. The library's
  argument \<^verbatim>\<open>msg\<close> is overwritten before it is read.
\<close>

definition devCmd_FilePasswordFunc ::
  "'w sys \<Rightarrow> string \<Rightarrow> string \<Rightarrow> 'w proc \<Rightarrow> (error + string) called \<times> 'w proc" where
  "devCmd_FilePasswordFunc env home msg s =
     (case s of (kc, w) \<Rightarrow>
        if length kc = 0 then
          (let msg1 = ''Enter a password to decrypt your credentials vault: ''
                        @ filepath_Join env [home, ''.ipsw'', VaultName env]
           in case os_Stat env (filepath_Join env [home, ''.ipsw'', VaultName env]) w of
                (fi, w1) \<Rightarrow>
                  (let msg2 = (if fi = Stat_ErrNotExist
                               then ''Enter a password to encrypt your credentials to vault: ''
                                      @ filepath_Join env [home, ''.ipsw'', VaultName env]
                               else msg1)
                   in case survey_AskOne env (survey_Password msg2) w1 of
                        (Inl err, w2) \<Rightarrow>
                          if err = InterruptErr
                          then (Exited 0, (kc, log_Warn env ''Exiting...'' w2))
                          else (Ret (Inl err), (kc, w2))
                      | (Inr answer, w2) \<Rightarrow> (Ret (Inr answer), (answer, w2))))
        else (Ret (Inr kc), (kc, w)))"

text \<open>
  The block that \<^verbatim>\<open>RunE\<close> writes three times after \<^verbatim>\<open>survey.AskOne\<close> (lines
  172-178, 185-191 and 236-242): on \<^verbatim>\<open>terminal.InterruptErr\<close> warn and
  \<^verbatim>\<open>os.Exit(0)\<close>, on another error return it, otherwise go on with the answer.
\<close>

definition AskOne_or_leave :: "'w sys \<Rightarrow> prompt \<Rightarrow> 'w \<Rightarrow> string step \<times> 'w" where
  "AskOne_or_leave env p w =
     (case survey_AskOne env p w of
        (Inl err, w') \<Rightarrow>
          if err = InterruptErr
          then (Stop (os_Exit 0), log_Warn env ''Exiting...'' w')
          else (Stop (Return (Some err)), w')
      | (Inr answer, w') \<Rightarrow> (Next answer, w'))"

text \<open>
  Lines 163-216: the credentials. The result of \<^verbatim>\<open>ring.Set\<close> is not bound to
  anything in the source (line 201), so the model matches any returned value.
\<close>

definition devCmd_credentials ::
  "'w sys \<Rightarrow> 'w keyring_Config \<Rightarrow> string \<Rightarrow> string \<Rightarrow> 'w proc
     \<Rightarrow> (string \<times> string) step \<times> 'w proc" where
  "devCmd_credentials env ring username0 password0 s =
     (if length username0 = 0 \<or> length password0 = 0 then
        (case ring_Get env ring (VaultName env) s of
           (Exited code, s1) \<Rightarrow> (Stop (os_Exit code), s1)
         | (Ret (Inl err), (kc, w1)) \<Rightarrow>
             (let w2 = log_Errorf env (''failed to get credentials from vault: '' @ Error err) w1
              in case (if length username0 = 0
                       then AskOne_or_leave env (survey_Input ''Please type your username:'') w2
                       else (Next username0, w2)) of
                   (Stop out, w3) \<Rightarrow> (Stop out, (kc, w3))
                 | (Next username1, w3) \<Rightarrow>
                     (case (if length password0 = 0
                            then AskOne_or_leave env (survey_Password ''Please type your password:'') w3
                            else (Next password0, w3)) of
                        (Stop out, w4) \<Rightarrow> (Stop out, (kc, w4))
                      | (Next password1, w4) \<Rightarrow>
                          (case json_Marshal_DevCreds env
                                  \<lparr>Username = username1, Password = password1\<rparr> of
                             Inl err \<Rightarrow> (Stop (Return (Some err)), (kc, w4))
                           | Inr dat \<Rightarrow>
                               (case ring_Set env ring
                                       \<lparr>Key = VaultName env, Data = dat, Label = AppName env,
                                        Description = ''application password''\<rparr> (kc, w4) of
                                  (Exited code, s5) \<Rightarrow> (Stop (os_Exit code), s5)
                                | (Ret _, s5) \<Rightarrow> (Next (username1, password1), s5)))))
         | (Ret (Inr creds), s1) \<Rightarrow>
             (case json_Unmarshal_DevCreds env (Data creds) of
                Inl err \<Rightarrow> (Stop (Return (Some err)), s1)
              | Inr dcreds \<Rightarrow> (Next (Username dcreds, Password dcreds), s1)))
      else (Next (username0, password0), s))"

text \<open>Lines 228-246: the download type; \<open>more'\<close> is the local \<^verbatim>\<open>more\<close>.\<close>

definition devCmd_dlType :: "'w sys \<Rightarrow> bool \<Rightarrow> 'w \<Rightarrow> string step \<times> 'w" where
  "devCmd_dlType env more' w =
     (if more' then (Next ''more'', w)
      else
        (case AskOne_or_leave env
                (survey_Select ''Choose a download type:''
                   [''OSes (iOS, macOS, tvOS...)'', ''More (XCode, KDKs...)'']) w of
           (Stop out, w') \<Rightarrow> (Stop out, w')
         | (Next dlType, w') \<Rightarrow>
             (Next (if strings_Contains dlType ''More'' then ''more'' else dlType), w')))"

text \<open>
  Lines 248-267: the listing as JSON or the download prompt. The file mode
  \<^verbatim>\<open>0660\<close> is octal: 432.
\<close>

definition devCmd_output :: "'w sys \<Rightarrow> Settings \<Rightarrow> string \<Rightarrow> 'w \<Rightarrow> outcome \<times> 'w" where
  "devCmd_output env st dlType w =
     (if asJSON st then
        (case app_GetDownloadsAsJSON env dlType (prettyJSON st) w of
           (Inl err, w1) \<Rightarrow> (Return (Some err), w1)
         | (Inr dat, w1) \<Rightarrow>
             if length (output_dir st) > 0 then
               (let fpath = filepath_Join env [output_dir st, ''dev_portal_'' @ dlType @ ''.json''];
                    w2 = log_Infof env (''Creating '' @ fpath) w1
                in case os_WriteFile env fpath dat 432 w2 of
                     (Some err, w3) \<Rightarrow> (Return (Some err), w3)
                   | (None, w3) \<Rightarrow> (Return None, w3))
             else (Return None, fmt_Println env dat w1))
      else
        (case app_DownloadPrompt env dlType w of
           (Some err, w1) \<Rightarrow> (Return (Some err), w1)
         | (None, w1) \<Rightarrow> (Return None, w1)))"

text \<open>Lines 222-267: the optional watch, then the two blocks above.\<close>

definition devCmd_after_login :: "'w sys \<Rightarrow> Settings \<Rightarrow> 'w \<Rightarrow> outcome \<times> 'w" where
  "devCmd_after_login env st w1 =
     (case (if length (watchList st) > 0 then app_Watch env w1 else (None, w1)) of
        (Some err, w2) \<Rightarrow> (Return (Some err), w2)
      | (None, w2) \<Rightarrow>
          (case devCmd_dlType env (more_flag st) w2 of
             (Stop out, w3) \<Rightarrow> (out, w3)
           | (Next dlType, w3) \<Rightarrow> devCmd_output env st dlType w3))"

text \<open>Lines 218-267: the login, then the rest.\<close>

definition devCmd_session ::
  "'w sys \<Rightarrow> Settings \<Rightarrow> string \<Rightarrow> string \<Rightarrow> 'w \<Rightarrow> outcome \<times> 'w" where
  "devCmd_session env st username1 password1 w =
     (case app_Login env username1 password1 w of
        (Some err, w1) \<Rightarrow> (Return (Some err), w1)
      | (None, w1) \<Rightarrow> devCmd_after_login env st w1)"

text \<open>
  \<^verbatim>\<open>RunE\<close> of \<^verbatim>\<open>devCmd\<close> (lines 79-268). The \<^verbatim>\<open>viper.BindPFlag\<close> calls only wire
  flags to the settings that \<open>st\<close> already holds.
\<close>

definition devCmd_RunE :: "'w sys \<Rightarrow> Settings \<Rightarrow> 'w \<Rightarrow> outcome \<times> 'w" where
  "devCmd_RunE env st w0 =
     (let w1 = (if verbose st then log_SetLevel_Debug env w0 else w0)
      in case os_UserHomeDir env w1 of
           (Inl err, w2) \<Rightarrow> (Return (Some err), w2)
         | (Inr home, w2) \<Rightarrow>
             (let ring = \<lparr>ServiceName = KeychainServiceName env,
                          KeychainSynchronizable = False,
                          KeychainAccessibleWhenUnlocked = True,
                          FileDir = filepath_Join env [home, ''.ipsw''],
                          FilePasswordFunc = devCmd_FilePasswordFunc env home\<rparr>
              in case keyring_Open env ring (keychain st, w2) of
                   (Exited code, (kc, w3)) \<Rightarrow> (os_Exit code, w3)
                 | (Ret (Some err), (kc, w3)) \<Rightarrow>
                     (Return (Some (Errorf (''failed to open keyring: '' @ Error err))), w3)
                 | (Ret None, (kc, w3)) \<Rightarrow>
                     (let w4 = NewDevPortal env
                                 \<lparr>Proxy = proxy st, Insecure = insecure st, SkipAll = skipAll st,
                                  ResumeAll = resumeAll st, RestartAll = restartAll st,
                                  RemoveCommas = removeCommas st, PreferSMS = sms st,
                                  PageSize = pageSize st, WatchList = watchList st,
                                  Verbose = verbose st\<rparr> w3
                      in case devCmd_credentials env ring (username st) (password st) (kc, w4) of
                           (Stop out, (kc', w5)) \<Rightarrow> (out, w5)
                         | (Next (username1, password1), (kc', w5)) \<Rightarrow>
                             devCmd_session env st username1 password1 w5)))"

section \<open>Sample environments\<close>

text \<open>
  Two concrete environments on which the functions above can be run. They stand for
  the parts outside the sources and are used only to evaluate the model at explicit
  inputs; every general theorem below holds for all environments.

  The first is a firmware index over a catalog \<open>catalog\<close> and a table \<open>db\<close> from
  device identifiers to device records. Its world is the list of the URLs requested
  so far, oldest first. A body is the path that was asked for, and the decoders read
  the record back from the table.
\<close>

definition sample_IPSW :: "string \<Rightarrow> string \<Rightarrow> string \<Rightarrow> IPSW" where
  "sample_IPSW ident ver build =
     \<lparr>IPSW.Identifier = ident, Version = ver, BuildID = build, SHA1 = [], MD5 = [],
      FileSize = 0, URL = [], ReleaseDate = 0, UploadDate = 0, Signed = False\<rparr>"

definition sample_Device :: "string \<Rightarrow> IPSW list \<Rightarrow> Device" where
  "sample_Device ident fws =
     \<lparr>Name = [], Device.Identifier = ident, BoardConfig = [], Platform = [], CpID = 0, BdID = 0,
      Firmwares = fws\<rparr>"

definition ok_Response :: "string \<Rightarrow> Response" where
  "ok_Response body = \<lparr>StatusCode = 200, Status = ''200 OK'', Body = Inr body\<rparr>"

definition index_remote :: "(string \<times> Device) list \<Rightarrow> string \<Rightarrow> error + Response" where
  "index_remote db url =
     (if url = ipswMeAPI @ ''devices'' then Inr (ok_Response ''devices'')
      else if prefix (ipswMeAPI @ ''device/'') url then
        (case map_of db (drop (length (ipswMeAPI @ ''device/'')) url) of
           Some d \<Rightarrow> Inr (ok_Response (drop (length ipswMeAPI) url))
         | None \<Rightarrow> Inr \<lparr>StatusCode = 404, Status = ''404 Not Found'', Body = Inr []\<rparr>)
      else if prefix (ipswMeAPI @ ''ipsw/'') url then
        Inr (ok_Response (drop (length ipswMeAPI) url))
      else Inl (LibError ''no such host''))"

definition index_net :: "Device list \<Rightarrow> (string \<times> Device) list \<Rightarrow> string list net" where
  "index_net catalog db =
     \<lparr>http_Get = (\<lambda>url w. (index_remote db url, w @ [url])),
      json_Unmarshal_Devices =
        (\<lambda>body. if body = ''devices'' then Inr catalog
                 else Inl (LibError ''unexpected end of JSON input'')),
      json_Unmarshal_Device =
        (\<lambda>body. case map_of db (drop (length ''device/'') body) of
                   Some d \<Rightarrow> Inr d
                 | None \<Rightarrow> Inl (LibError ''unexpected end of JSON input'')),
      json_Unmarshal_IPSWs =
        (\<lambda>body. Inr (filter (\<lambda>f. Version f = drop (length ''ipsw/'') body)
                         (concat (map (\<lambda>(k, d). Firmwares d) db)))),
      json_Unmarshal_IPSW = (\<lambda>body. Inl (LibError ''unexpected end of JSON input''))\<rparr>"

text \<open>
  The second is a desk for the dev command. Its world records every call in
  \<open>events\<close> (oldest first), holds the vault file (\<open>None\<close>: the file does not exist;
  otherwise the vault password and the stored item), the answers that the user is
  going to type, and whether writing the vault fails. The keyring behaves like a
  file-backed store: \<open>ring_Get\<close> on a missing file reports that the item is not
  found without asking for the password; otherwise \<open>ring_Get\<close> and \<open>ring_Set\<close> ask
  for the vault password through the callback of the configuration.
\<close>

datatype event =
    E_SetLevel_Debug
  | E_UserHomeDir
  | E_Stat string
  | E_WriteFile string string int
  | E_AskOne prompt
  | E_Warn string
  | E_Errorf string
  | E_Infof string
  | E_Println string
  | E_keyring_Open string
  | E_ring_Get string
  | E_ring_Set keyring_Item
  | E_NewDevPortal
  | E_Login string string
  | E_Watch
  | E_GetDownloadsAsJSON string bool
  | E_DownloadPrompt string

record desk =
  events :: "event list"
  vault_file :: "(string \<times> keyring_Item) option"
  typed :: "(error + string) list"
  vault_write_fails :: bool

definition saw :: "event \<Rightarrow> desk \<Rightarrow> desk" where
  "saw e w = w\<lparr>events := events w @ [e]\<rparr>"

text \<open>
  \<open>desk_Join\<close> stands for \<^verbatim>\<open>filepath.Join\<close> on the desk. It only glues the
  elements with a slash; Go's function also drops empty elements and cleans the
  result. The two agree on elements that are non-empty, hold no dot element and
  neither end nor start with a slash after the first, which is the case of every
  path built below.
\<close>

fun desk_Join :: "string list \<Rightarrow> string" where
  "desk_Join [] = []"
| "desk_Join [p] = p"
| "desk_Join (p # q # ps) = p @ ''/'' @ desk_Join (q # ps)"

definition desk_AskOne :: "prompt \<Rightarrow> desk \<Rightarrow> (error + string) \<times> desk" where
  "desk_AskOne p w =
     (case typed w of
        [] \<Rightarrow> (Inl InterruptErr, saw (E_AskOne p) w)
      | a # rest \<Rightarrow> (a, saw (E_AskOne p) (w\<lparr>typed := rest\<rparr>)))"

definition desk_ring_Get ::
  "desk keyring_Config \<Rightarrow> string \<Rightarrow> desk proc \<Rightarrow> (error + keyring_Item) called \<times> desk proc" where
  "desk_ring_Get cfg k s =
     (case s of (kc, w) \<Rightarrow>
        (case vault_file w of
           None \<Rightarrow>
             (Ret (Inl (LibError ''The specified item could not be found in the keyring'')),
              (kc, saw (E_ring_Get k) w))
         | Some (pw, item) \<Rightarrow>
             (case FilePasswordFunc cfg ''Enter passphrase to unlock'' (kc, saw (E_ring_Get k) w) of
                (Exited code, s1) \<Rightarrow> (Exited code, s1)
              | (Ret (Inl err), s1) \<Rightarrow> (Ret (Inl err), s1)
              | (Ret (Inr answer), s1) \<Rightarrow>
                  if answer = pw then (Ret (Inr item), s1)
                  else (Ret (Inl (LibError ''failed to decrypt'')), s1))))"

definition desk_ring_Set ::
  "desk keyring_Config \<Rightarrow> keyring_Item \<Rightarrow> desk proc \<Rightarrow> error option called \<times> desk proc" where
  "desk_ring_Set cfg item s =
     (case s of (kc, w) \<Rightarrow>
        (case FilePasswordFunc cfg ''Enter passphrase to unlock'' (kc, saw (E_ring_Set item) w) of
           (Exited code, s1) \<Rightarrow> (Exited code, s1)
         | (Ret (Inl err), s1) \<Rightarrow> (Ret (Some err), s1)
         | (Ret (Inr answer), (kc1, w1)) \<Rightarrow>
             if vault_write_fails w1
             then (Ret (Some (LibError ''no space left on device'')), (kc1, w1))
             else (Ret None, (kc1, w1\<lparr>vault_file := Some (answer, item)\<rparr>))))"

definition desk_sys :: "desk sys" where
  "desk_sys =
     \<lparr>KeychainServiceName = ''ipsw'',
      VaultName = ''ipsw-vault'',
      AppName = ''ipsw'',
      filepath_Join = desk_Join,
      json_Marshal_DevCreds = (\<lambda>c. Inr (Username c @ '':'' @ Password c)),
      json_Unmarshal_DevCreds =
        (\<lambda>dat. Inr \<lparr>Username = takeWhile (\<lambda>c. c \<noteq> CHR '':'') dat,
                      Password = drop 1 (dropWhile (\<lambda>c. c \<noteq> CHR '':'') dat)\<rparr>),
      os_UserHomeDir = (\<lambda>w. (Inr ''/home/u'', saw E_UserHomeDir w)),
      os_Stat =
        (\<lambda>path w. (if vault_file w = None then Stat_ErrNotExist else Stat_ok,
                    saw (E_Stat path) w)),
      os_WriteFile = (\<lambda>path dat perm w. (None, saw (E_WriteFile path dat perm) w)),
      survey_AskOne = desk_AskOne,
      log_SetLevel_Debug = saw E_SetLevel_Debug,
      log_Warn = (\<lambda>msg. saw (E_Warn msg)),
      log_Errorf = (\<lambda>msg. saw (E_Errorf msg)),
      log_Infof = (\<lambda>msg. saw (E_Infof msg)),
      fmt_Println = (\<lambda>msg. saw (E_Println msg)),
      keyring_Open = (\<lambda>cfg s. case s of (kc, w) \<Rightarrow> (Ret None, (kc, saw (E_keyring_Open (FileDir cfg)) w))),
      ring_Get = desk_ring_Get,
      ring_Set = desk_ring_Set,
      NewDevPortal = (\<lambda>cfg. saw E_NewDevPortal),
      app_Login = (\<lambda>u p w. (None, saw (E_Login u p) w)),
      app_Watch = (\<lambda>w. (None, saw E_Watch w)),
      app_GetDownloadsAsJSON = (\<lambda>dlType pretty w. (Inr ''[]'', saw (E_GetDownloadsAsJSON dlType pretty) w)),
      app_DownloadPrompt = (\<lambda>dlType w. (None, saw (E_DownloadPrompt dlType) w))\<rparr>"


definition settings0 :: Settings where
  "settings0 =
     \<lparr>verbose = False, proxy = [], insecure = False, skipAll = False, resumeAll = False,
      restartAll = False, removeCommas = False, watchList = [], more_flag = False,
      pageSize = 20, sms = False, asJSON = False, prettyJSON = False, output_dir = [],
      username = [], password = [], keychain = []\<rparr>"

definition desk0 :: desk where
  "desk0 = \<lparr>events = [], vault_file = None, typed = [], vault_write_fails = False\<rparr>"

text \<open>
  Sample data: a catalog of two devices whose firmware lists share the build
  \<^verbatim>\<open>5A345\<close>, three device-trait records carrying the product types of the
  specification's ordering example, a first run of the dev command, and the ring
  that \<^verbatim>\<open>RunE\<close> builds on the desk.
\<close>

definition sample_catalog :: "Device list" where
  "sample_catalog = [sample_Device ''iPhone1,1'' [], sample_Device ''iPad1,1'' []]"

definition sample_db :: "(string \<times> Device) list" where
  "sample_db =
     [(''iPhone1,1'', sample_Device ''iPhone1,1'' [sample_IPSW ''iPhone1,1'' ''1.0'' ''5A345'']),
      (''iPad1,1'', sample_Device ''iPad1,1'' [sample_IPSW ''iPad1,1'' ''2.0'' ''5A345''])]"

definition sample_xcode_Device :: "string \<Rightarrow> xcode_Device" where
  "sample_xcode_Device pt =
     \<lparr>Target = [], TargetType = [], TargetVariant = [], Platform = [], ProductType = pt,
      ProductDescription = [], CompatibleDeviceFallback = [],
      DeviceTrait =
        \<lparr>DeviceTraitSetID = 0, PreferredArchitecture = [], ArtworkDeviceIdiom = [],
         ArtworkHostedIdioms = [], ArtworkScaleFactor = 0, ArtworkDeviceSubtype = 0,
         ArtworkDisplayGamut = [], ArtworkDynamicDisplayMode = [],
         DevicePerformanceMemoryClass = 0, GraphicsFeatureSetClass = [],
         GraphicsFeatureSetFallbacks = []\<rparr>,
      DeviceTraitSet = 0\<rparr>"

text \<open>
  A small embedded dataset in which two records share one product type, and a codec
  for it: the compressed bytes are \<^verbatim>\<open>gz:\<close> followed by the text, and the one
  text \<^verbatim>\<open>traits\<close> decodes to the dataset.
\<close>

definition sample_traits :: "xcode_Device list" where
  "sample_traits =
     [(sample_xcode_Device ''iPhone9,1'')\<lparr>Target := ''D10AP''\<rparr>,
      (sample_xcode_Device ''iPhone9,1'')\<lparr>Target := ''D101AP''\<rparr>,
      (sample_xcode_Device ''iPad7,1'')\<lparr>Target := ''J71bAP''\<rparr>]"

definition sample_codec :: "string codec" where
  "sample_codec =
     \<lparr>gzip_NewReader =
        (\<lambda>bytes. if prefix ''gz:'' bytes then Inr (drop 3 bytes)
                  else Inl (LibError ''gzip: invalid header'')),
      json_Decode_Devices =
        (\<lambda>zr. if zr = ''traits'' then Inr sample_traits
               else Inl (LibError ''unexpected end of JSON input''))\<rparr>"


definition desk_ring :: "desk keyring_Config" where
  "desk_ring =
     \<lparr>ServiceName = ''ipsw'', KeychainSynchronizable = False,
      KeychainAccessibleWhenUnlocked = True, FileDir = ''/home/u/.ipsw'',
      FilePasswordFunc = devCmd_FilePasswordFunc desk_sys ''/home/u''\<rparr>"


section \<open>Properties of the firmware-index client\<close>

lemmas index_defs =
  index_net_def index_remote_def ok_Response_def sample_Device_def sample_IPSW_def
  sample_catalog_def sample_db_def ipswMeAPI_def StatusOK_def

lemma strings_Contains_sublist: "strings_Contains s sub \<longleftrightarrow> sublist sub s"
  by (induction s) (auto simp: sublist_Cons_right)

lemma GetVersion_firmwares_find:
  "GetVersion_firmwares fws b = map_option Version (find (\<lambda>f. BuildID f = b) fws)"
  by (induction fws) auto

text \<open>
  The request that the loop of \<open>GetVersion\<close> writes inline is the request of
  \<open>GetDevice\<close>, so each round of the loop is one \<open>GetDevice\<close> call. At the counter
  \<open>i\<close> the loop scans the devices \<open>0..i\<close> from the last to the first.
\<close>

lemma GetVersion_loop_scan:
  "i < int (length devices) \<Longrightarrow>
   GetVersion_loop env b devices i w =
     ResolveVersionFromBuild_scan env b (rev (take (nat (i + 1)) devices)) w"
proof (induction env b devices i w rule: GetVersion_loop.induct)
  case (1 env buildID devices i w)
  show ?case
  proof (cases "i \<ge> 0")
    case False
    then show ?thesis by (simp add: GetVersion_loop.simps)
  next
    case True
    with "1.prems" have n: "nat i < length devices" by simp
    have t: "rev (take (nat (i + 1)) devices) = devices ! nat i # rev (take (nat i) devices)"
      using True n by (simp add: nat_add_distrib take_Suc_conv_app_nth)
    have s: "nat (i - 1 + 1) = nat i" by simp
    have lt: "i - 1 < int (length devices)" using "1.prems" by simp
    show ?thesis
      apply (subst GetVersion_loop.simps)
      apply (simp only: t ResolveVersionFromBuild_scan.simps)
      using True "1.IH" lt
      apply (auto simp: GetDevice_def GetVersion_firmwares_find s
                  split: prod.splits sum.splits option.splits)
      done
  qed
qed

lemma GetVersion_loop_all:
  "GetVersion_loop env buildID devices (int (length devices) - 1) w =
     ResolveVersionFromBuild_scan env buildID (rev devices) w"
  using GetVersion_loop_scan [of "int (length devices) - 1" devices env buildID w] by simp

lemma GetVersion_scan:
  "GetVersion env buildID w =
     (case GetAllDevices env w of
        (Inl err, w') \<Rightarrow>
          (Inl (Errorf (''failed to get all devices from ipsw.me API: '' @ Error err)), w')
      | (Inr devices, w') \<Rightarrow> ResolveVersionFromBuild_scan env buildID (rev devices) w')"
  unfolding GetVersion_def by (simp only: GetVersion_loop_all)

text \<open>
  Claim C1. \<open>GetVersion\<close> fetches the catalog and then does what the specification
  says of \<^verbatim>\<open>ResolveVersionFromBuild\<close> on the reversed catalog: one \<open>GetDevice\<close> call
  per device, the last catalog entry first; the version of the first firmware record
  with the requested build that this scan meets is returned, and the not-found error
  only when the reversed catalog is exhausted. In particular the last catalog entry
  is fetched first, and when its firmware list holds the build, its first such
  record gives the version, whatever the earlier entries hold.
\<close>

theorem GetVersion_reverse_scan:
  "GetVersion env buildID w =
     (case GetAllDevices env w of
        (Inl err, w') \<Rightarrow>
          (Inl (Errorf (''failed to get all devices from ipsw.me API: '' @ Error err)), w')
      | (Inr devices, w') \<Rightarrow> ResolveVersionFromBuild_scan env buildID (rev devices) w') \<and>
   (GetAllDevices env w = (Inr (earlier @ [d]), w1) \<and>
    GetDevice env (Device.Identifier d) w1 = (Inr dev, w2) \<and>
    find (\<lambda>f. BuildID f = buildID) (Firmwares dev) = Some f
    \<longrightarrow> GetVersion env buildID w = (Inr (Version f), w2))"
proof (intro conjI impI)
  show "GetVersion env buildID w =
     (case GetAllDevices env w of
        (Inl err, w') \<Rightarrow>
          (Inl (Errorf (''failed to get all devices from ipsw.me API: '' @ Error err)), w')
      | (Inr devices, w') \<Rightarrow> ResolveVersionFromBuild_scan env buildID (rev devices) w')"
    by (rule GetVersion_scan)
next
  assume a: "GetAllDevices env w = (Inr (earlier @ [d]), w1) \<and>
    GetDevice env (Device.Identifier d) w1 = (Inr dev, w2) \<and>
    find (\<lambda>f. BuildID f = buildID) (Firmwares dev) = Some f"
  then show "GetVersion env buildID w = (Inr (Version f), w2)"
    by (simp add: GetVersion_scan)
qed

theorem GetVersion_reverse_scan_witness:
  "GetAllDevices (index_net sample_catalog sample_db) [] =
     (Inr ([sample_Device ''iPhone1,1'' []] @ [sample_Device ''iPad1,1'' []]),
      [''https://api.ipsw.me/v4/devices'']) \<and>
   GetDevice (index_net sample_catalog sample_db) ''iPhone1,1'' [] =
     (Inr (sample_Device ''iPhone1,1'' [sample_IPSW ''iPhone1,1'' ''1.0'' ''5A345'']),
      [''https://api.ipsw.me/v4/device/iPhone1,1'']) \<and>
   GetDevice (index_net sample_catalog sample_db) ''iPad1,1'' [''https://api.ipsw.me/v4/devices''] =
     (Inr (sample_Device ''iPad1,1'' [sample_IPSW ''iPad1,1'' ''2.0'' ''5A345'']),
      [''https://api.ipsw.me/v4/devices'', ''https://api.ipsw.me/v4/device/iPad1,1'']) \<and>
   GetVersion (index_net sample_catalog sample_db) ''5A345'' [] =
     (Inr ''2.0'',
      [''https://api.ipsw.me/v4/devices'', ''https://api.ipsw.me/v4/device/iPad1,1''])"
proof -
  have c: "GetAllDevices (index_net sample_catalog sample_db) [] =
     (Inr ([sample_Device ''iPhone1,1'' []] @ [sample_Device ''iPad1,1'' []]),
      [''https://api.ipsw.me/v4/devices''])"
    by (simp add: GetAllDevices_def index_defs)
  have g1: "GetDevice (index_net sample_catalog sample_db) ''iPhone1,1'' [] =
     (Inr (sample_Device ''iPhone1,1'' [sample_IPSW ''iPhone1,1'' ''1.0'' ''5A345'']),
      [''https://api.ipsw.me/v4/device/iPhone1,1''])"
    by (simp add: GetDevice_def index_defs)
  have g2: "GetDevice (index_net sample_catalog sample_db)
              (Device.Identifier (sample_Device ''iPad1,1'' []))
              [''https://api.ipsw.me/v4/devices''] =
     (Inr (sample_Device ''iPad1,1'' [sample_IPSW ''iPad1,1'' ''2.0'' ''5A345'']),
      [''https://api.ipsw.me/v4/devices'', ''https://api.ipsw.me/v4/device/iPad1,1''])"
    by (simp add: GetDevice_def index_defs)
  have f: "find (\<lambda>f. BuildID f = ''5A345'')
             (Firmwares (sample_Device ''iPad1,1'' [sample_IPSW ''iPad1,1'' ''2.0'' ''5A345'']))
           = Some (sample_IPSW ''iPad1,1'' ''2.0'' ''5A345'')"
    by (simp add: sample_Device_def sample_IPSW_def)
  have v: "Version (sample_IPSW ''iPad1,1'' ''2.0'' ''5A345'') = ''2.0''"
    by (simp add: sample_IPSW_def)
  have i: "Device.Identifier (sample_Device ''iPad1,1'' []) = ''iPad1,1''"
    by (simp add: sample_Device_def)
  from GetVersion_reverse_scan
         [of "index_net sample_catalog sample_db" "''5A345''" "[]"
             "[sample_Device ''iPhone1,1'' []]" "sample_Device ''iPad1,1'' []"
             "[''https://api.ipsw.me/v4/devices'']"
             "sample_Device ''iPad1,1'' [sample_IPSW ''iPad1,1'' ''2.0'' ''5A345'']"
             "[''https://api.ipsw.me/v4/devices'', ''https://api.ipsw.me/v4/device/iPad1,1'']"
             "sample_IPSW ''iPad1,1'' ''2.0'' ''5A345''"]
       c g2 f
  have "GetVersion (index_net sample_catalog sample_db) ''5A345'' [] =
     (Inr (Version (sample_IPSW ''iPad1,1'' ''2.0'' ''5A345'')),
      [''https://api.ipsw.me/v4/devices'', ''https://api.ipsw.me/v4/device/iPad1,1''])"
    by blast
  then have r: "GetVersion (index_net sample_catalog sample_db) ''5A345'' [] =
     (Inr ''2.0'',
      [''https://api.ipsw.me/v4/devices'', ''https://api.ipsw.me/v4/device/iPad1,1''])"
    by (simp only: v)
  from g2 have g2': "GetDevice (index_net sample_catalog sample_db) ''iPad1,1''
                       [''https://api.ipsw.me/v4/devices''] =
     (Inr (sample_Device ''iPad1,1'' [sample_IPSW ''iPad1,1'' ''2.0'' ''5A345'']),
      [''https://api.ipsw.me/v4/devices'', ''https://api.ipsw.me/v4/device/iPad1,1''])"
    by (simp only: i)
  from c g1 g2' r show ?thesis by blast
qed

text \<open>
  The message of the error that \<open>GetBuildID\<close> returns after its scan names the
  version and the device that were asked for.
\<close>

lemma GetBuildID_range_message:
  assumes "GetBuildID_range ipsws version ident = Inl e"
  shows "strings_Contains (Error e) version \<and> strings_Contains (Error e) ident"
proof -
  have e: "e = Errorf (''no build found for version '' @ version @ '' and device '' @ ident)"
    using assms by (induction ipsws) (auto split: if_splits)
  have 1: "sublist version (''no build found for version '' @ version @ ('' and device '' @ ident))"
    by (rule sublist_appendI)
  have "sublist ident ((''no build found for version '' @ version @ '' and device '') @ ident @ [])"
    by (rule sublist_appendI)
  then have 2: "sublist ident (''no build found for version '' @ version @ '' and device '' @ ident)"
    by simp
  from 1 2 show ?thesis
    unfolding e Error.simps strings_Contains_sublist by blast
qed

text \<open>
  Claim C4. The claim asks that the not-found error of \<open>GetVersion\<close> names the build
  that was asked for. On the sample index, asked for the build \<^verbatim>\<open>19A344\<close> that no
  firmware record carries, \<open>GetVersion\<close> fetches the catalog and then both devices,
  the last first, and returns the fixed text \<^verbatim>\<open>build did not a version\<close>, in which
  the build does not occur. (\<open>GetBuildID_range_message\<close> above is the half of the
  claim about \<open>GetBuildID\<close>, which holds.)
\<close>

theorem GetVersion_not_found_omits_build:
  "GetVersion (index_net sample_catalog sample_db) ''19A344'' [] =
     (Inl (Errorf ''build did not a version''),
      [''https://api.ipsw.me/v4/devices'', ''https://api.ipsw.me/v4/device/iPad1,1'',
       ''https://api.ipsw.me/v4/device/iPhone1,1'']) \<and>
   \<not> strings_Contains (Error (Errorf ''build did not a version'')) ''19A344''"
  by (simp add: GetVersion_def GetAllDevices_def GetVersion_loop.simps index_defs)

text \<open>
  Claim C6. From the same world, \<open>GetDeviceIPSWs\<close> returns the \<open>Firmwares\<close> field of
  the device that \<open>GetDevice\<close> returns, the same list in the same order, and leaves
  the same world; when \<open>GetDevice\<close> fails, \<open>GetDeviceIPSWs\<close> fails with the same
  error.
\<close>

theorem GetDeviceIPSWs_projects_GetDevice:
  "(GetDevice env ident w = (Inr d, w') \<longrightarrow>
      GetDeviceIPSWs env ident w = (Inr (Firmwares d), w')) \<and>
   (GetDevice env ident w = (Inl err, w') \<longrightarrow>
      GetDeviceIPSWs env ident w = (Inl err, w'))"
  by (simp add: GetDeviceIPSWs_def)

theorem GetDeviceIPSWs_projects_GetDevice_witness:
  "GetDevice (index_net sample_catalog sample_db) ''iPad1,1'' [] =
     (Inr (sample_Device ''iPad1,1'' [sample_IPSW ''iPad1,1'' ''2.0'' ''5A345'']),
      [''https://api.ipsw.me/v4/device/iPad1,1'']) \<and>
   GetDeviceIPSWs (index_net sample_catalog sample_db) ''iPad1,1'' [] =
     (Inr [sample_IPSW ''iPad1,1'' ''2.0'' ''5A345''],
      [''https://api.ipsw.me/v4/device/iPad1,1'']) \<and>
   GetDevice (index_net sample_catalog sample_db) ''iPod9,9'' [] =
     (Inl (Errorf ''api returned status: 404 Not Found''),
      [''https://api.ipsw.me/v4/device/iPod9,9'']) \<and>
   GetDeviceIPSWs (index_net sample_catalog sample_db) ''iPod9,9'' [] =
     (Inl (Errorf ''api returned status: 404 Not Found''),
      [''https://api.ipsw.me/v4/device/iPod9,9''])"
proof -
  have ok: "GetDevice (index_net sample_catalog sample_db) ''iPad1,1'' [] =
     (Inr (sample_Device ''iPad1,1'' [sample_IPSW ''iPad1,1'' ''2.0'' ''5A345'']),
      [''https://api.ipsw.me/v4/device/iPad1,1''])"
    by (simp add: GetDevice_def index_defs)
  have ko: "GetDevice (index_net sample_catalog sample_db) ''iPod9,9'' [] =
     (Inl (Errorf ''api returned status: 404 Not Found''),
      [''https://api.ipsw.me/v4/device/iPod9,9''])"
    by (simp add: GetDevice_def index_defs)
  have fw: "Firmwares (sample_Device ''iPad1,1'' [sample_IPSW ''iPad1,1'' ''2.0'' ''5A345''])
            = [sample_IPSW ''iPad1,1'' ''2.0'' ''5A345'']"
    by (simp add: sample_Device_def)
  from GetDeviceIPSWs_projects_GetDevice
         [of "index_net sample_catalog sample_db" "''iPad1,1''" "[]"
             "sample_Device ''iPad1,1'' [sample_IPSW ''iPad1,1'' ''2.0'' ''5A345'']"
             "[''https://api.ipsw.me/v4/device/iPad1,1'']"] ok
  have "GetDeviceIPSWs (index_net sample_catalog sample_db) ''iPad1,1'' [] =
     (Inr (Firmwares (sample_Device ''iPad1,1'' [sample_IPSW ''iPad1,1'' ''2.0'' ''5A345''])),
      [''https://api.ipsw.me/v4/device/iPad1,1''])"
    by blast
  then have 1: "GetDeviceIPSWs (index_net sample_catalog sample_db) ''iPad1,1'' [] =
     (Inr [sample_IPSW ''iPad1,1'' ''2.0'' ''5A345''],
      [''https://api.ipsw.me/v4/device/iPad1,1''])"
    by (simp only: fw)
  from GetDeviceIPSWs_projects_GetDevice
         [of "index_net sample_catalog sample_db" "''iPod9,9''" "[]" _
             "[''https://api.ipsw.me/v4/device/iPod9,9'']"
             "Errorf ''api returned status: 404 Not Found''"] ko
  have 2: "GetDeviceIPSWs (index_net sample_catalog sample_db) ''iPod9,9'' [] =
     (Inl (Errorf ''api returned status: 404 Not Found''),
      [''https://api.ipsw.me/v4/device/iPod9,9''])"
    by blast
  from ok ko 1 2 show ?thesis by blast
qed

lemma GetBuildID_range_find:
  "GetBuildID_range ipsws version ident =
     (case find (\<lambda>i. IPSW.Identifier i = ident) ipsws of
        Some i \<Rightarrow> Inr (BuildID i)
      | None \<Rightarrow>
          Inl (Errorf (''no build found for version '' @ version @ '' and device '' @ ident)))"
  by (induction ipsws) auto

text \<open>
  Claim C7. \<open>GetBuildID\<close> makes the request of \<open>GetAllIPSW\<close> for the version (the
  full firmware list of that version) and passes its failures on; from the list it
  returns the \<open>BuildID\<close> of the first firmware whose \<open>Identifier\<close> is the given one,
  and the not-found error when no firmware of the list has it.
\<close>

theorem GetBuildID_first_match:
  "GetBuildID env version ident w =
     (case GetAllIPSW env version w of
        (Inl err, w') \<Rightarrow> (Inl err, w')
      | (Inr ipsws, w') \<Rightarrow>
          (case find (\<lambda>i. IPSW.Identifier i = ident) ipsws of
             Some i \<Rightarrow> Inr (BuildID i)
           | None \<Rightarrow>
               Inl (Errorf (''no build found for version '' @ version @ '' and device '' @ ident)),
           w'))"
  by (simp add: GetBuildID_def GetAllIPSW_def GetBuildID_range_find
        split: prod.splits sum.splits)

section \<open>Properties of the device-trait package\<close>

lemma fmt_02d_two_digits:
  "0 \<le> n \<Longrightarrow> n < 100 \<Longrightarrow> fmt_02d n = [digit (nat n div 10), digit (nat n)]"
  by (cases "nat n < 10") (auto simp: fmt_02d_def zero_pad_def digit_def)

lemma Less_key:
  "0 \<le> a \<Longrightarrow> a < int (length s) \<Longrightarrow> 0 \<le> b \<Longrightarrow> b < int (length s) \<Longrightarrow>
   Less dd s a b =
     Some (Sprintf_s02d02d (dd (ProductType (s ! nat a)))
           < Sprintf_s02d02d (dd (ProductType (s ! nat b))))"
  by (simp add: Less_def)

lemma IsSorted_loop_adjacent:
  "sort_IsSorted_loop lessf n = Some True \<Longrightarrow> 0 < a \<Longrightarrow> a \<le> n \<Longrightarrow>
   lessf a (a - 1) = Some False"
proof (induction lessf n rule: sort_IsSorted_loop.induct)
  case (1 lessf i)
  from "1.prems" have pos: "i > 0" by simp
  from "1.prems"(1) pos obtain b where b: "lessf i (i - 1) = Some b"
    by (subst (asm) sort_IsSorted_loop.simps) (auto split: option.splits)
  with "1.prems"(1) pos have nb: "\<not> b" and rest: "sort_IsSorted_loop lessf (i - 1) = Some True"
    by (subst (asm) sort_IsSorted_loop.simps, auto split: if_splits)+
  show ?case
  proof (cases "a = i")
    case True
    with b nb show ?thesis by simp
  next
    case False
    with "1.prems" have "a \<le> i - 1" by simp
    with "1.IH" [OF pos b nb rest "1.prems"(2)] show ?thesis .
  qed
qed

lemma IsSorted_sorted_keys:
  assumes "sort_IsSorted (Less dd s) (Len s) = Some True"
  shows "sorted (map (\<lambda>d. Sprintf_s02d02d (dd (ProductType d))) s)"
proof -
  have "map (\<lambda>d. Sprintf_s02d02d (dd (ProductType d))) s ! a
        \<le> map (\<lambda>d. Sprintf_s02d02d (dd (ProductType d))) s ! Suc a"
    if a: "Suc a < length s" for a
  proof -
    have "Less dd s (int (Suc a)) (int (Suc a) - 1) = Some False"
      using assms a
      by (intro IsSorted_loop_adjacent [where n = "int (length s) - 1"])
         (auto simp: sort_IsSorted_def Len_def)
    moreover have "Less dd s (int (Suc a)) (int (Suc a) - 1) =
       Some (Sprintf_s02d02d (dd (ProductType (s ! Suc a)))
             < Sprintf_s02d02d (dd (ProductType (s ! a))))"
    proof -
      have n1: "nat (int (Suc a)) = Suc a" and n2: "nat (int (Suc a) - 1) = a" by simp_all
      have "Less dd s (int (Suc a)) (int (Suc a) - 1) =
            Some (Sprintf_s02d02d (dd (ProductType (s ! nat (int (Suc a)))))
                  < Sprintf_s02d02d (dd (ProductType (s ! nat (int (Suc a) - 1)))))"
        using a by (intro Less_key) auto
      then show ?thesis by (simp only: n1 n2)
    qed
    ultimately show ?thesis using a by (simp add: not_less)
  qed
  then show ?thesis by (simp add: sorted_iff_nth_Suc)
qed

lemma sorted_position:
  assumes "sorted (map f s)" "a < length s" "b < length s" "f (s ! a) < f (s ! b)"
  shows "a < b"
proof (rule ccontr)
  assume "\<not> a < b"
  then have "b \<le> a" by simp
  with assms(1,2) have "map f s ! b \<le> map f s ! a" by (simp add: sorted_iff_nth_mono)
  with assms show False by simp
qed

lemma key_iPhone10_1:
  "Sprintf_s02d02d \<lparr>Family = ''iPhone'', Major = 10, Minor = 1\<rparr> = ''iPhone1001''"
  by (simp add: Sprintf_s02d02d_def fmt_02d_def zero_pad_def digit_def)

lemma key_iPhone9_2:
  "Sprintf_s02d02d \<lparr>Family = ''iPhone'', Major = 9, Minor = 2\<rparr> = ''iPhone0902''"
  by (simp add: Sprintf_s02d02d_def fmt_02d_def zero_pad_def digit_def)

lemma key_iPad7_1:
  "Sprintf_s02d02d \<lparr>Family = ''iPad'', Major = 7, Minor = 1\<rparr> = ''iPad0701''"
  by (simp add: Sprintf_s02d02d_def fmt_02d_def zero_pad_def digit_def)

text \<open>
  Claim C5. \<open>Less\<close> compares two records of the slice by the composite keys of their
  deconstructed product types: the family, then the major, then the minor, each
  number printed by \<^verbatim>\<open>%02d\<close>, which for a number from 0 to 99 is two digits with a
  leading zero. For every \<^verbatim>\<open>DeconstructDevice\<close> that reads the three product types
  of the example as the specification does, a slice that holds \<^verbatim>\<open>iPad7,1\<close> at \<open>i\<close>,
  \<^verbatim>\<open>iPhone9,2\<close> at \<open>j\<close> and \<^verbatim>\<open>iPhone10,1\<close> at \<open>k\<close> has \<open>Less\<close> true from each to the
  next and false backwards, so whenever the slice is sorted (\<^verbatim>\<open>sort.IsSorted\<close>)
  then \<open>i < j < k\<close>.
\<close>

theorem ByProductType_Less_composite_key:
  fixes dd :: "string \<Rightarrow> utils_Device"
  assumes d1: "dd ''iPhone10,1'' = \<lparr>Family = ''iPhone'', Major = 10, Minor = 1\<rparr>"
      and d2: "dd ''iPhone9,2'' = \<lparr>Family = ''iPhone'', Major = 9, Minor = 2\<rparr>"
      and d3: "dd ''iPad7,1'' = \<lparr>Family = ''iPad'', Major = 7, Minor = 1\<rparr>"
      and i: "i < length s" "ProductType (s ! i) = ''iPad7,1''"
      and j: "j < length s" "ProductType (s ! j) = ''iPhone9,2''"
      and k: "k < length s" "ProductType (s ! k) = ''iPhone10,1''"
  shows "(\<forall>a b. 0 \<le> a \<and> a < Len s \<and> 0 \<le> b \<and> b < Len s \<longrightarrow>
            Less dd s a b =
              Some (Family (dd (ProductType (s ! nat a)))
                      @ fmt_02d (Major (dd (ProductType (s ! nat a))))
                      @ fmt_02d (Minor (dd (ProductType (s ! nat a))))
                    < Family (dd (ProductType (s ! nat b)))
                      @ fmt_02d (Major (dd (ProductType (s ! nat b))))
                      @ fmt_02d (Minor (dd (ProductType (s ! nat b)))))) \<and>
         (\<forall>n. 0 \<le> n \<and> n < 100 \<longrightarrow> fmt_02d n = [digit (nat n div 10), digit (nat n)]) \<and>
         Less dd s (int i) (int j) = Some True \<and>
         Less dd s (int j) (int k) = Some True \<and>
         Less dd s (int i) (int k) = Some True \<and>
         Less dd s (int j) (int i) = Some False \<and>
         Less dd s (int k) (int j) = Some False \<and>
         Less dd s (int k) (int i) = Some False \<and>
         (sort_IsSorted (Less dd s) (Len s) = Some True \<longrightarrow> i < j \<and> j < k)"
proof -
  have ki: "Sprintf_s02d02d (dd (ProductType (s ! i))) = ''iPad0701''"
    by (simp only: i d3 key_iPad7_1)
  have kj: "Sprintf_s02d02d (dd (ProductType (s ! j))) = ''iPhone0902''"
    by (simp only: j d2 key_iPhone9_2)
  have kk: "Sprintf_s02d02d (dd (ProductType (s ! k))) = ''iPhone1001''"
    by (simp only: k d1 key_iPhone10_1)
  have general: "\<forall>a b. 0 \<le> a \<and> a < Len s \<and> 0 \<le> b \<and> b < Len s \<longrightarrow>
            Less dd s a b =
              Some (Family (dd (ProductType (s ! nat a)))
                      @ fmt_02d (Major (dd (ProductType (s ! nat a))))
                      @ fmt_02d (Minor (dd (ProductType (s ! nat a))))
                    < Family (dd (ProductType (s ! nat b)))
                      @ fmt_02d (Major (dd (ProductType (s ! nat b))))
                      @ fmt_02d (Minor (dd (ProductType (s ! nat b)))))"
    by (simp add: Less_def Len_def Sprintf_s02d02d_def Let_def)
  have pad: "\<forall>n. 0 \<le> n \<and> n < 100 \<longrightarrow> fmt_02d n = [digit (nat n div 10), digit (nat n)]"
    by (simp add: fmt_02d_two_digits)
  have L: "Less dd s (int a) (int b) =
             Some (Sprintf_s02d02d (dd (ProductType (s ! a)))
                   < Sprintf_s02d02d (dd (ProductType (s ! b))))"
    if "a < length s" "b < length s" for a b
    using that Less_key [of "int a" s "int b" dd] by simp
  have ij: "Less dd s (int i) (int j) = Some True" using i(1) j(1) by (simp add: L ki kj)
  have jk: "Less dd s (int j) (int k) = Some True" using j(1) k(1) by (simp add: L kj kk)
  have ik: "Less dd s (int i) (int k) = Some True" using i(1) k(1) by (simp add: L ki kk)
  have ji: "Less dd s (int j) (int i) = Some False" using i(1) j(1) by (simp add: L ki kj)
  have kj': "Less dd s (int k) (int j) = Some False" using j(1) k(1) by (simp add: L kj kk)
  have ki': "Less dd s (int k) (int i) = Some False" using i(1) k(1) by (simp add: L ki kk)
  have order: "i < j \<and> j < k" if srt: "sort_IsSorted (Less dd s) (Len s) = Some True"
  proof -
    let ?f = "\<lambda>d. Sprintf_s02d02d (dd (ProductType d))"
    from srt have sorted: "sorted (map ?f s)" by (rule IsSorted_sorted_keys)
    have "?f (s ! i) < ?f (s ! j)" by (simp add: ki kj)
    with sorted i(1) j(1) have 1: "i < j" by (rule sorted_position)
    have "?f (s ! j) < ?f (s ! k)" by (simp add: kj kk)
    with sorted j(1) k(1) have 2: "j < k" by (rule sorted_position)
    from 1 2 show ?thesis by simp
  qed
  from general pad ij jk ik ji kj' ki' order show ?thesis by blast
qed

lemmas xcode_sample_defs =
  sample_xcode_Device_def DeconstructDevice_spec_def is_digit_def atoi_def digit_value_def

theorem ByProductType_Less_composite_key_witness:
  "DeconstructDevice_spec ''iPhone10,1'' = \<lparr>Family = ''iPhone'', Major = 10, Minor = 1\<rparr> \<and>
   DeconstructDevice_spec ''iPhone9,2'' = \<lparr>Family = ''iPhone'', Major = 9, Minor = 2\<rparr> \<and>
   DeconstructDevice_spec ''iPad7,1'' = \<lparr>Family = ''iPad'', Major = 7, Minor = 1\<rparr> \<and>
   sort_IsSorted
     (Less DeconstructDevice_spec
        [sample_xcode_Device ''iPad7,1'', sample_xcode_Device ''iPhone9,2'',
         sample_xcode_Device ''iPhone10,1''])
     (Len [sample_xcode_Device ''iPad7,1'', sample_xcode_Device ''iPhone9,2'',
           sample_xcode_Device ''iPhone10,1'']) = Some True \<and>
   sort_IsSorted
     (Less DeconstructDevice_spec
        [sample_xcode_Device ''iPhone10,1'', sample_xcode_Device ''iPhone9,2'',
         sample_xcode_Device ''iPad7,1''])
     (Len [sample_xcode_Device ''iPhone10,1'', sample_xcode_Device ''iPhone9,2'',
           sample_xcode_Device ''iPad7,1'']) = Some False \<and>
   Less DeconstructDevice_spec
     [sample_xcode_Device ''iPhone10,1'', sample_xcode_Device ''iPhone9,2'',
      sample_xcode_Device ''iPad7,1''] 2 1 = Some True \<and>
   Less DeconstructDevice_spec
     [sample_xcode_Device ''iPhone10,1'', sample_xcode_Device ''iPhone9,2'',
      sample_xcode_Device ''iPad7,1''] 1 0 = Some True \<and>
   Less DeconstructDevice_spec
     [sample_xcode_Device ''iPhone10,1'', sample_xcode_Device ''iPhone9,2'',
      sample_xcode_Device ''iPad7,1''] 0 1 = Some False \<and>
   fmt_02d 9 = ''09'' \<and> fmt_02d 10 = ''10''"
proof -
  have d1: "DeconstructDevice_spec ''iPhone10,1'' = \<lparr>Family = ''iPhone'', Major = 10, Minor = 1\<rparr>"
    by (simp add: xcode_sample_defs)
  have d2: "DeconstructDevice_spec ''iPhone9,2'' = \<lparr>Family = ''iPhone'', Major = 9, Minor = 2\<rparr>"
    by (simp add: xcode_sample_defs)
  have d3: "DeconstructDevice_spec ''iPad7,1'' = \<lparr>Family = ''iPad'', Major = 7, Minor = 1\<rparr>"
    by (simp add: xcode_sample_defs)
  let ?u = "[sample_xcode_Device ''iPhone10,1'', sample_xcode_Device ''iPhone9,2'',
             sample_xcode_Device ''iPad7,1'']"
  let ?t = "[sample_xcode_Device ''iPad7,1'', sample_xcode_Device ''iPhone9,2'',
             sample_xcode_Device ''iPhone10,1'']"
  have pt: "ProductType (sample_xcode_Device p) = p" for p
    by (simp add: sample_xcode_Device_def)
  note T = ByProductType_Less_composite_key [OF d1 d2 d3, of 2 ?u 1 0]
  have u: "Less DeconstructDevice_spec ?u (int 2) (int 1) = Some True \<and>
           Less DeconstructDevice_spec ?u (int 1) (int 0) = Some True \<and>
           Less DeconstructDevice_spec ?u (int 0) (int 1) = Some False \<and>
           (\<forall>n. 0 \<le> n \<and> n < 100 \<longrightarrow> fmt_02d n = [digit (nat n div 10), digit (nat n)])"
    using T by (simp add: pt)
  have s1: "sort_IsSorted (Less DeconstructDevice_spec ?t) (Len ?t) = Some True"
    by (simp add: sort_IsSorted_def Len_def sort_IsSorted_loop.simps Less_def pt d1 d2 d3
          key_iPad7_1 key_iPhone9_2 key_iPhone10_1)
  have s2: "sort_IsSorted (Less DeconstructDevice_spec ?u) (Len ?u) = Some False"
    by (simp add: sort_IsSorted_def Len_def sort_IsSorted_loop.simps Less_def pt d1 d2 d3
          key_iPad7_1 key_iPhone9_2 key_iPhone10_1)
  have f: "fmt_02d 9 = ''09'' \<and> fmt_02d 10 = ''10''"
    using u by (simp add: digit_def)
  from d1 d2 d3 s1 s2 u f show ?thesis by simp
qed

lemma GetDeviceForProd_range_find:
  "GetDeviceForProd_range devices prd =
     (case find (\<lambda>d. ProductType d = prd) devices of
        Some d \<Rightarrow> Inr d
      | None \<Rightarrow> Inl (Errorf ''device not found''))"
  by (induction devices) auto

lemma GetDeviceForModel_range_find:
  "GetDeviceForModel_range devices model =
     (case find (\<lambda>d. Target d = model) devices of
        Some d \<Rightarrow> Inr d
      | None \<Rightarrow> Inl (Errorf ''device not found''))"
  by (induction devices) auto

text \<open>
  Claim C10. \<open>GetDevices\<close> is the two decoders applied to the embedded bytes
  \<open>traitsData\<close>: the error of \<^verbatim>\<open>gzip.NewReader\<close> as it is, the error of the JSON
  decoder wrapped, and otherwise the decoded list, in the order of the dataset. It
  returns the package state as it found it (it assigns nothing and caches nothing),
  so two package states with the same bytes give the same result and a second call
  returns what the first returned. When the bytes decode to a list,
  \<open>GetDeviceForProd\<close> and \<open>GetDeviceForModel\<close> return the first record of that list
  whose \<open>ProductType\<close> (\<open>Target\<close>) is the argument, or the error
  \<^verbatim>\<open>device not found\<close>; when they do not, both return the error of \<open>GetDevices\<close>.
  Calling either again with the same argument gives the same result.
\<close>

theorem GetDevices_deterministic:
  "GetDevices lib pkg =
     (case gzip_NewReader lib (traitsData pkg) of
        Inl err \<Rightarrow> Inl err
      | Inr zr \<Rightarrow>
          (case json_Decode_Devices lib zr of
             Inl err \<Rightarrow> Inl (Errorf (''failed unmarshaling device_traits.gz data: '' @ Error err))
           | Inr devices \<Rightarrow> Inr devices),
      pkg) \<and>
   (traitsData pkg = traitsData pkg' \<longrightarrow> fst (GetDevices lib pkg) = fst (GetDevices lib pkg')) \<and>
   (gzip_NewReader lib (traitsData pkg) = Inr zr \<and> json_Decode_Devices lib zr = Inr devices
    \<longrightarrow> GetDevices lib pkg = (Inr devices, pkg) \<and>
        GetDeviceForProd lib prd pkg =
          (case find (\<lambda>d. ProductType d = prd) devices of
             Some d \<Rightarrow> Inr d
           | None \<Rightarrow> Inl (Errorf ''device not found''),
           pkg) \<and>
        GetDeviceForModel lib model pkg =
          (case find (\<lambda>d. Target d = model) devices of
             Some d \<Rightarrow> Inr d
           | None \<Rightarrow> Inl (Errorf ''device not found''),
           pkg)) \<and>
   (fst (GetDevices lib pkg) = Inl err
    \<longrightarrow> GetDeviceForProd lib prd pkg = (Inl err, pkg) \<and>
        GetDeviceForModel lib model pkg = (Inl err, pkg)) \<and>
   snd (GetDevices lib pkg) = pkg \<and>
   fst (GetDevices lib (snd (GetDevices lib pkg))) = fst (GetDevices lib pkg) \<and>
   GetDeviceForProd lib prd pkg =
     (case fst (GetDevices lib pkg) of
        Inl err \<Rightarrow> Inl err
      | Inr devices \<Rightarrow>
          (case find (\<lambda>d. ProductType d = prd) devices of
             Some d \<Rightarrow> Inr d
           | None \<Rightarrow> Inl (Errorf ''device not found'')),
      pkg) \<and>
   GetDeviceForModel lib model pkg =
     (case fst (GetDevices lib pkg) of
        Inl err \<Rightarrow> Inl err
      | Inr devices \<Rightarrow>
          (case find (\<lambda>d. Target d = model) devices of
             Some d \<Rightarrow> Inr d
           | None \<Rightarrow> Inl (Errorf ''device not found'')),
      pkg) \<and>
   fst (GetDeviceForProd lib prd (snd (GetDeviceForProd lib prd pkg)))
     = fst (GetDeviceForProd lib prd pkg) \<and>
   fst (GetDeviceForModel lib model (snd (GetDeviceForModel lib model pkg)))
     = fst (GetDeviceForModel lib model pkg)"
proof -
  have g: "GetDevices lib p =
     (case gzip_NewReader lib (traitsData p) of
        Inl err \<Rightarrow> Inl err
      | Inr zr \<Rightarrow>
          (case json_Decode_Devices lib zr of
             Inl err \<Rightarrow> Inl (Errorf (''failed unmarshaling device_traits.gz data: '' @ Error err))
           | Inr devices \<Rightarrow> Inr devices),
      p)" for p
    by (simp add: GetDevices_def split: sum.splits)
  have s: "snd (GetDevices lib p) = p" for p
    by (simp add: g)
  have d: "fst (GetDevices lib pkg) = fst (GetDevices lib pkg')" if "traitsData pkg = traitsData pkg'"
    using that by (simp add: g)
  have p: "GetDeviceForProd lib prd p =
     (case fst (GetDevices lib p) of
        Inl err \<Rightarrow> Inl err
      | Inr devices \<Rightarrow>
          (case find (\<lambda>d. ProductType d = prd) devices of
             Some d \<Rightarrow> Inr d
           | None \<Rightarrow> Inl (Errorf ''device not found'')),
      p)" for p
    by (simp add: GetDevices_def GetDeviceForProd_def GetDeviceForProd_range_find
          split: sum.splits)
  have m: "GetDeviceForModel lib model p =
     (case fst (GetDevices lib p) of
        Inl err \<Rightarrow> Inl err
      | Inr devices \<Rightarrow>
          (case find (\<lambda>d. Target d = model) devices of
             Some d \<Rightarrow> Inr d
           | None \<Rightarrow> Inl (Errorf ''device not found'')),
      p)" for p
    by (simp add: GetDevices_def GetDeviceForModel_def GetDeviceForModel_range_find
          split: sum.splits)
  have ok: "GetDevices lib pkg = (Inr devices, pkg) \<and>
        GetDeviceForProd lib prd pkg =
          (case find (\<lambda>d. ProductType d = prd) devices of
             Some d \<Rightarrow> Inr d
           | None \<Rightarrow> Inl (Errorf ''device not found''),
           pkg) \<and>
        GetDeviceForModel lib model pkg =
          (case find (\<lambda>d. Target d = model) devices of
             Some d \<Rightarrow> Inr d
           | None \<Rightarrow> Inl (Errorf ''device not found''),
           pkg)"
    if "gzip_NewReader lib (traitsData pkg) = Inr zr \<and> json_Decode_Devices lib zr = Inr devices"
    using that by (simp add: p m g)
  have ko: "GetDeviceForProd lib prd pkg = (Inl err, pkg) \<and>
        GetDeviceForModel lib model pkg = (Inl err, pkg)"
    if "fst (GetDevices lib pkg) = Inl err"
    using that by (simp add: p m)
  have sp: "snd (GetDeviceForProd lib prd pkg) = pkg" by (simp add: p)
  have sm: "snd (GetDeviceForModel lib model pkg) = pkg" by (simp add: m)
  have r1: "fst (GetDevices lib (snd (GetDevices lib pkg))) = fst (GetDevices lib pkg)"
    by (simp only: s)
  have r2: "fst (GetDeviceForProd lib prd (snd (GetDeviceForProd lib prd pkg)))
     = fst (GetDeviceForProd lib prd pkg)" by (simp only: sp)
  have r3: "fst (GetDeviceForModel lib model (snd (GetDeviceForModel lib model pkg)))
     = fst (GetDeviceForModel lib model pkg)" by (simp only: sm)
  from g [of pkg] d ok ko s [of pkg] r1 p [of pkg] m [of pkg] r2 r3 show ?thesis
    by blast
qed

text \<open>
  A run on a dataset in which the product type \<^verbatim>\<open>iPhone9,1\<close> occurs twice, with two
  targets: the lookup by product type returns the first of the two records, the
  lookup by the second target the second one.
\<close>

lemmas codec_sample_defs = sample_codec_def sample_traits_def sample_xcode_Device_def

theorem GetDevices_deterministic_witness:
  "gzip_NewReader sample_codec (traitsData \<lparr>traitsData = ''gz:traits''\<rparr>) = Inr ''traits'' \<and>
   json_Decode_Devices sample_codec ''traits'' = Inr sample_traits \<and>
   map (\<lambda>d. (ProductType d, Target d)) sample_traits =
     [(''iPhone9,1'', ''D10AP''), (''iPhone9,1'', ''D101AP''), (''iPad7,1'', ''J71bAP'')] \<and>
   GetDevices sample_codec \<lparr>traitsData = ''gz:traits''\<rparr> =
     (Inr sample_traits, \<lparr>traitsData = ''gz:traits''\<rparr>) \<and>
   GetDeviceForProd sample_codec ''iPhone9,1'' \<lparr>traitsData = ''gz:traits''\<rparr> =
     (Inr ((sample_xcode_Device ''iPhone9,1'')\<lparr>Target := ''D10AP''\<rparr>),
      \<lparr>traitsData = ''gz:traits''\<rparr>) \<and>
   GetDeviceForModel sample_codec ''D101AP'' \<lparr>traitsData = ''gz:traits''\<rparr> =
     (Inr ((sample_xcode_Device ''iPhone9,1'')\<lparr>Target := ''D101AP''\<rparr>),
      \<lparr>traitsData = ''gz:traits''\<rparr>) \<and>
   GetDeviceForProd sample_codec ''iPod1,1'' \<lparr>traitsData = ''gz:traits''\<rparr> =
     (Inl (Errorf ''device not found''), \<lparr>traitsData = ''gz:traits''\<rparr>) \<and>
   GetDevices sample_codec \<lparr>traitsData = ''traits''\<rparr> =
     (Inl (LibError ''gzip: invalid header''), \<lparr>traitsData = ''traits''\<rparr>) \<and>
   GetDevices sample_codec \<lparr>traitsData = ''gz:junk''\<rparr> =
     (Inl (Errorf ''failed unmarshaling device_traits.gz data: unexpected end of JSON input''),
      \<lparr>traitsData = ''gz:junk''\<rparr>) \<and>
   GetDeviceForProd sample_codec ''iPhone9,1'' \<lparr>traitsData = ''gz:junk''\<rparr> =
     (Inl (Errorf ''failed unmarshaling device_traits.gz data: unexpected end of JSON input''),
      \<lparr>traitsData = ''gz:junk''\<rparr>)"
proof -
  let ?pkg = "\<lparr>traitsData = ''gz:traits''\<rparr>"
  have z: "gzip_NewReader sample_codec (traitsData ?pkg) = Inr ''traits''"
    by (simp add: sample_codec_def)
  have j: "json_Decode_Devices sample_codec ''traits'' = Inr sample_traits"
    by (simp add: sample_codec_def)
  have t: "map (\<lambda>d. (ProductType d, Target d)) sample_traits =
     [(''iPhone9,1'', ''D10AP''), (''iPhone9,1'', ''D101AP''), (''iPad7,1'', ''J71bAP'')]"
    by (simp add: sample_traits_def sample_xcode_Device_def)
  note T = GetDevices_deterministic [of sample_codec]
  note ok = T [of ?pkg _ "''traits''" sample_traits, THEN conjunct2, THEN conjunct2,
               THEN conjunct1, rule_format, OF conjI [OF z j]]
  have 1: "GetDevices sample_codec ?pkg = (Inr sample_traits, ?pkg)"
    by (rule ok [THEN conjunct1])
  have 2: "GetDeviceForProd sample_codec ''iPhone9,1'' ?pkg =
     (Inr ((sample_xcode_Device ''iPhone9,1'')\<lparr>Target := ''D10AP''\<rparr>), ?pkg)"
    unfolding ok [THEN conjunct2, THEN conjunct1]
    by (simp add: sample_traits_def sample_xcode_Device_def)
  have 3: "GetDeviceForModel sample_codec ''D101AP'' ?pkg =
     (Inr ((sample_xcode_Device ''iPhone9,1'')\<lparr>Target := ''D101AP''\<rparr>), ?pkg)"
    unfolding ok [THEN conjunct2, THEN conjunct2]
    by (simp add: sample_traits_def sample_xcode_Device_def)
  have 4: "GetDeviceForProd sample_codec ''iPod1,1'' ?pkg = (Inl (Errorf ''device not found''), ?pkg)"
    unfolding ok [THEN conjunct2, THEN conjunct1]
    by (simp add: sample_traits_def sample_xcode_Device_def)
  have 5: "GetDevices sample_codec \<lparr>traitsData = ''traits''\<rparr> =
     (Inl (LibError ''gzip: invalid header''), \<lparr>traitsData = ''traits''\<rparr>)"
    unfolding T [THEN conjunct1] by (simp add: sample_codec_def)
  have 6: "GetDevices sample_codec \<lparr>traitsData = ''gz:junk''\<rparr> =
     (Inl (Errorf ''failed unmarshaling device_traits.gz data: unexpected end of JSON input''),
      \<lparr>traitsData = ''gz:junk''\<rparr>)"
    unfolding T [THEN conjunct1] by (simp add: sample_codec_def)
  have 7: "GetDeviceForProd sample_codec ''iPhone9,1'' \<lparr>traitsData = ''gz:junk''\<rparr> =
     (Inl (Errorf ''failed unmarshaling device_traits.gz data: unexpected end of JSON input''),
      \<lparr>traitsData = ''gz:junk''\<rparr>)"
    using T [of "\<lparr>traitsData = ''gz:junk''\<rparr>", THEN conjunct2, THEN conjunct2, THEN conjunct2,
             THEN conjunct1, rule_format, THEN conjunct1] 6
    by simp
  from z j t 1 2 3 4 5 6 7 show ?thesis by blast
qed

section \<open>Properties of the dev command\<close>

lemmas dev_defs =
  devCmd_RunE_def devCmd_session_def devCmd_after_login_def devCmd_output_def devCmd_dlType_def
  devCmd_credentials_def AskOne_or_leave_def devCmd_FilePasswordFunc_def

lemmas desk_defs =
  desk_sys_def desk_ring_def desk_ring_Get_def desk_ring_Set_def desk_AskOne_def saw_def
  settings0_def desk0_def

text \<open>
  Claim C8. When the captured \<^verbatim>\<open>keychain\<close> is empty, a call of the password callback
  on a world \<open>w\<close> first asks \<^verbatim>\<open>os.Stat\<close>, on that world, for the vault file under the
  home directory, and then prompts with the "encrypt" message when the answer is
  that the file does not exist and with the "decrypt" message otherwise (so also when
  the file exists). The check belongs to the call: the same closure gives one message
  or the other according to the world it is called on. When \<^verbatim>\<open>keychain\<close> is not empty
  the callback returns it and touches nothing. The example after the theorem ends
  with a run on a desk that shows the order: \<^verbatim>\<open>keyring.Open\<close> comes first, and the
  \<^verbatim>\<open>os.Stat\<close> stands right before the prompt.
\<close>

theorem FilePasswordFunc_prompt_at_call_time:
  assumes "os_Stat env (filepath_Join env [home, ''.ipsw'', VaultName env]) w = (fi, w1)"
  shows "devCmd_FilePasswordFunc env home msg ([], w) =
           (case survey_AskOne env
                   (survey_Password
                      ((if fi = Stat_ErrNotExist
                        then ''Enter a password to encrypt your credentials to vault: ''
                        else ''Enter a password to decrypt your credentials vault: '')
                       @ filepath_Join env [home, ''.ipsw'', VaultName env])) w1 of
              (Inl err, w2) \<Rightarrow>
                if err = InterruptErr
                then (Exited 0, ([], log_Warn env ''Exiting...'' w2))
                else (Ret (Inl err), ([], w2))
            | (Inr answer, w2) \<Rightarrow> (Ret (Inr answer), (answer, w2))) \<and>
         (kc \<noteq> [] \<longrightarrow> devCmd_FilePasswordFunc env home msg (kc, w) = (Ret (Inr kc), (kc, w)))"
  using assms by (simp add: devCmd_FilePasswordFunc_def Let_def)

theorem FilePasswordFunc_prompt_at_call_time_witness:
  "os_Stat desk_sys (filepath_Join desk_sys [''/home/u'', ''.ipsw'', VaultName desk_sys])
     (desk0\<lparr>typed := [Inr ''pw'']\<rparr>) =
     (Stat_ErrNotExist,
      \<lparr>events = [E_Stat ''/home/u/.ipsw/ipsw-vault''], vault_file = None,
       typed = [Inr ''pw''], vault_write_fails = False\<rparr>) \<and>
   FilePasswordFunc desk_ring ''Enter passphrase to unlock'' ([], desk0\<lparr>typed := [Inr ''pw'']\<rparr>) =
     (Ret (Inr ''pw''),
      (''pw'',
       \<lparr>events =
          [E_Stat ''/home/u/.ipsw/ipsw-vault'',
           E_AskOne (survey_Password
             ''Enter a password to encrypt your credentials to vault: /home/u/.ipsw/ipsw-vault'')],
        vault_file = None, typed = [], vault_write_fails = False\<rparr>)) \<and>
   FilePasswordFunc desk_ring ''Enter passphrase to unlock''
     ([], desk0\<lparr>typed := [Inr ''pw''],
                  vault_file := Some (''pw'', \<lparr>Key = ''ipsw-vault'', Data = ''u:p'', Label = ''ipsw'',
                                              Description = ''application password''\<rparr>)\<rparr>) =
     (Ret (Inr ''pw''),
      (''pw'',
       \<lparr>events =
          [E_Stat ''/home/u/.ipsw/ipsw-vault'',
           E_AskOne (survey_Password
             ''Enter a password to decrypt your credentials vault: /home/u/.ipsw/ipsw-vault'')],
        vault_file = Some (''pw'', \<lparr>Key = ''ipsw-vault'', Data = ''u:p'', Label = ''ipsw'',
                                    Description = ''application password''\<rparr>),
        typed = [], vault_write_fails = False\<rparr>)) \<and>
   FilePasswordFunc desk_ring ''Enter passphrase to unlock'' (''k'', desk0\<lparr>typed := [Inr ''pw'']\<rparr>) =
     (Ret (Inr ''k''), (''k'', desk0\<lparr>typed := [Inr ''pw'']\<rparr>)) \<and>
   devCmd_RunE desk_sys (settings0\<lparr>more_flag := True\<rparr>)
     (desk0\<lparr>typed := [Inr ''pw''],
            vault_file := Some (''pw'', \<lparr>Key = ''ipsw-vault'', Data = ''u:p'', Label = ''ipsw'',
                                        Description = ''application password''\<rparr>)\<rparr>) =
     (Return None,
      \<lparr>events =
         [E_UserHomeDir, E_keyring_Open ''/home/u/.ipsw'', E_NewDevPortal,
          E_ring_Get ''ipsw-vault'', E_Stat ''/home/u/.ipsw/ipsw-vault'',
          E_AskOne (survey_Password
            ''Enter a password to decrypt your credentials vault: /home/u/.ipsw/ipsw-vault''),
          E_Login ''u'' ''p'', E_DownloadPrompt ''more''],
       vault_file = Some (''pw'', \<lparr>Key = ''ipsw-vault'', Data = ''u:p'', Label = ''ipsw'',
                                   Description = ''application password''\<rparr>),
       typed = [], vault_write_fails = False\<rparr>)"
proof -
  have f: "FilePasswordFunc desk_ring = devCmd_FilePasswordFunc desk_sys ''/home/u''"
    by (simp add: desk_ring_def)
  have st1: "os_Stat desk_sys (filepath_Join desk_sys [''/home/u'', ''.ipsw'', VaultName desk_sys])
     (desk0\<lparr>typed := [Inr ''pw'']\<rparr>) =
     (Stat_ErrNotExist,
      \<lparr>events = [E_Stat ''/home/u/.ipsw/ipsw-vault''], vault_file = None,
       typed = [Inr ''pw''], vault_write_fails = False\<rparr>)"
    by (simp add: desk_defs)
  have st2: "os_Stat desk_sys (filepath_Join desk_sys [''/home/u'', ''.ipsw'', VaultName desk_sys])
     (desk0\<lparr>typed := [Inr ''pw''],
            vault_file := Some (''pw'', \<lparr>Key = ''ipsw-vault'', Data = ''u:p'', Label = ''ipsw'',
                                        Description = ''application password''\<rparr>)\<rparr>) =
     (Stat_ok,
      \<lparr>events = [E_Stat ''/home/u/.ipsw/ipsw-vault''],
       vault_file = Some (''pw'', \<lparr>Key = ''ipsw-vault'', Data = ''u:p'', Label = ''ipsw'',
                                   Description = ''application password''\<rparr>),
       typed = [Inr ''pw''], vault_write_fails = False\<rparr>)"
    by (simp add: desk_defs)
  note a = FilePasswordFunc_prompt_at_call_time [OF st1, of "''Enter passphrase to unlock''" "''k''", THEN conjunct1]
  note b = FilePasswordFunc_prompt_at_call_time [OF st2, of "''Enter passphrase to unlock''" "''k''", THEN conjunct1]
  note c = FilePasswordFunc_prompt_at_call_time [OF st1, of "''Enter passphrase to unlock''" "''k''", THEN conjunct2]
  have 1: "devCmd_FilePasswordFunc desk_sys ''/home/u'' ''Enter passphrase to unlock'' ([], desk0\<lparr>typed := [Inr ''pw'']\<rparr>) =
     (Ret (Inr ''pw''),
      (''pw'',
       \<lparr>events =
          [E_Stat ''/home/u/.ipsw/ipsw-vault'',
           E_AskOne (survey_Password
             ''Enter a password to encrypt your credentials to vault: /home/u/.ipsw/ipsw-vault'')],
        vault_file = None, typed = [], vault_write_fails = False\<rparr>))"
    unfolding a by (simp add: desk_defs)
  have 2: "devCmd_FilePasswordFunc desk_sys ''/home/u'' ''Enter passphrase to unlock''
     ([], desk0\<lparr>typed := [Inr ''pw''],
                  vault_file := Some (''pw'', \<lparr>Key = ''ipsw-vault'', Data = ''u:p'', Label = ''ipsw'',
                                              Description = ''application password''\<rparr>)\<rparr>) =
     (Ret (Inr ''pw''),
      (''pw'',
       \<lparr>events =
          [E_Stat ''/home/u/.ipsw/ipsw-vault'',
           E_AskOne (survey_Password
             ''Enter a password to decrypt your credentials vault: /home/u/.ipsw/ipsw-vault'')],
        vault_file = Some (''pw'', \<lparr>Key = ''ipsw-vault'', Data = ''u:p'', Label = ''ipsw'',
                                    Description = ''application password''\<rparr>),
        typed = [], vault_write_fails = False\<rparr>))"
    unfolding b by (simp add: desk_defs)
  have 3: "devCmd_FilePasswordFunc desk_sys ''/home/u'' ''Enter passphrase to unlock''
             (''k'', desk0\<lparr>typed := [Inr ''pw'']\<rparr>)
           = (Ret (Inr ''k''), (''k'', desk0\<lparr>typed := [Inr ''pw'']\<rparr>))"
    using c by simp
  have 4: "devCmd_RunE desk_sys (settings0\<lparr>more_flag := True\<rparr>)
     (desk0\<lparr>typed := [Inr ''pw''],
            vault_file := Some (''pw'', \<lparr>Key = ''ipsw-vault'', Data = ''u:p'', Label = ''ipsw'',
                                        Description = ''application password''\<rparr>)\<rparr>) =
     (Return None,
      \<lparr>events =
         [E_UserHomeDir, E_keyring_Open ''/home/u/.ipsw'', E_NewDevPortal,
          E_ring_Get ''ipsw-vault'', E_Stat ''/home/u/.ipsw/ipsw-vault'',
          E_AskOne (survey_Password
            ''Enter a password to decrypt your credentials vault: /home/u/.ipsw/ipsw-vault''),
          E_Login ''u'' ''p'', E_DownloadPrompt ''more''],
       vault_file = Some (''pw'', \<lparr>Key = ''ipsw-vault'', Data = ''u:p'', Label = ''ipsw'',
                                   Description = ''application password''\<rparr>),
       typed = [], vault_write_fails = False\<rparr>)"
    by (simp add: dev_defs desk_defs)
  from st1 1 2 3 4 show ?thesis by (simp only: f)
qed

lemma FilePasswordFunc_env_ring:
  "devCmd_FilePasswordFunc (env\<lparr>ring_Get := g, ring_Set := h\<rparr>) home
     = devCmd_FilePasswordFunc env home"
  by (rule ext)+
     (simp add: devCmd_FilePasswordFunc_def Let_def cong: if_cong prod.case_cong sum.case_cong)

lemma session_env_ring:
  "devCmd_session (env\<lparr>ring_Get := g, ring_Set := h\<rparr>) st u p w = devCmd_session env st u p w"
  by (simp add: devCmd_session_def devCmd_after_login_def devCmd_output_def devCmd_dlType_def
        AskOne_or_leave_def Let_def
        cong: if_cong prod.case_cong sum.case_cong option.case_cong step.case_cong)

lemma credentials_preseeded:
  "u \<noteq> [] \<Longrightarrow> p \<noteq> [] \<Longrightarrow> devCmd_credentials env ring u p s = (Next (u, p), s)"
  by (simp add: devCmd_credentials_def)

text \<open>
  Claim C9. With a non-empty username and a non-empty password in the settings, the
  credentials block does nothing: it hands the two values on and leaves the state as
  it was. The whole run is the same whatever \<open>ring_Get\<close> and \<open>ring_Set\<close> would do, so
  neither is called, and once the keyring is open the run is the login with exactly
  the two values of the settings followed by the rest of the command.
\<close>

theorem preseeded_credentials_bypass_vault:
  assumes "username st \<noteq> []" and "password st \<noteq> []"
  shows "devCmd_credentials env ring (username st) (password st) s
           = (Next (username st, password st), s) \<and>
         devCmd_RunE (env\<lparr>ring_Get := g, ring_Set := h\<rparr>) st w0 = devCmd_RunE env st w0 \<and>
         (os_UserHomeDir env (if verbose st then log_SetLevel_Debug env w0 else w0)
            = (Inr home, w2) \<and>
          keyring_Open env
            \<lparr>ServiceName = KeychainServiceName env, KeychainSynchronizable = False,
             KeychainAccessibleWhenUnlocked = True, FileDir = filepath_Join env [home, ''.ipsw''],
             FilePasswordFunc = devCmd_FilePasswordFunc env home\<rparr> (keychain st, w2)
            = (Ret None, (kc, w3)) \<and>
          NewDevPortal env
            \<lparr>Proxy = proxy st, Insecure = insecure st, SkipAll = skipAll st,
             ResumeAll = resumeAll st, RestartAll = restartAll st,
             RemoveCommas = removeCommas st, PreferSMS = sms st, PageSize = pageSize st,
             WatchList = watchList st, Verbose = verbose st\<rparr> w3 = w4
          \<longrightarrow> devCmd_RunE env st w0 =
                (case app_Login env (username st) (password st) w4 of
                   (Some err, w5) \<Rightarrow> (Return (Some err), w5)
                 | (None, w5) \<Rightarrow> devCmd_after_login env st w5))"
proof -
  have c: "devCmd_credentials e r (username st) (password st) s'
             = (Next (username st, password st), s')" for e :: "'a sys" and r s'
    using assms by (rule credentials_preseeded)
  have sel: "os_UserHomeDir (env\<lparr>ring_Get := g, ring_Set := h\<rparr>) = os_UserHomeDir env"
    "log_SetLevel_Debug (env\<lparr>ring_Get := g, ring_Set := h\<rparr>) = log_SetLevel_Debug env"
    "KeychainServiceName (env\<lparr>ring_Get := g, ring_Set := h\<rparr>) = KeychainServiceName env"
    "filepath_Join (env\<lparr>ring_Get := g, ring_Set := h\<rparr>) = filepath_Join env"
    "keyring_Open (env\<lparr>ring_Get := g, ring_Set := h\<rparr>) = keyring_Open env"
    "NewDevPortal (env\<lparr>ring_Get := g, ring_Set := h\<rparr>) = NewDevPortal env"
    by simp_all
  have r: "devCmd_RunE (env\<lparr>ring_Get := g, ring_Set := h\<rparr>) st w0 = devCmd_RunE env st w0"
    unfolding devCmd_RunE_def c sel session_env_ring FilePasswordFunc_env_ring
    by (rule refl)
  have l: "devCmd_RunE env st w0 =
                (case app_Login env (username st) (password st) w4 of
                   (Some err, w5) \<Rightarrow> (Return (Some err), w5)
                 | (None, w5) \<Rightarrow> devCmd_after_login env st w5)"
    if "os_UserHomeDir env (if verbose st then log_SetLevel_Debug env w0 else w0)
            = (Inr home, w2)"
      and "keyring_Open env
            \<lparr>ServiceName = KeychainServiceName env, KeychainSynchronizable = False,
             KeychainAccessibleWhenUnlocked = True, FileDir = filepath_Join env [home, ''.ipsw''],
             FilePasswordFunc = devCmd_FilePasswordFunc env home\<rparr> (keychain st, w2)
            = (Ret None, (kc, w3))"
      and "NewDevPortal env
            \<lparr>Proxy = proxy st, Insecure = insecure st, SkipAll = skipAll st,
             ResumeAll = resumeAll st, RestartAll = restartAll st,
             RemoveCommas = removeCommas st, PreferSMS = sms st, PageSize = pageSize st,
             WatchList = watchList st, Verbose = verbose st\<rparr> w3 = w4"
    using that by (simp add: devCmd_RunE_def c devCmd_session_def)
  from c r l show ?thesis by blast
qed

lemma run_preseeded:
  "devCmd_RunE desk_sys (settings0\<lparr>username := ''u'', password := ''p'', more_flag := True\<rparr>)
     (desk0\<lparr>vault_file := Some (''pw'', \<lparr>Key = ''ipsw-vault'', Data = ''a:b'', Label = ''ipsw'',
                                          Description = ''application password''\<rparr>)\<rparr>) =
   (Return None,
    \<lparr>events = [E_UserHomeDir, E_keyring_Open ''/home/u/.ipsw'', E_NewDevPortal,
               E_Login ''u'' ''p'', E_DownloadPrompt ''more''],
     vault_file = Some (''pw'', \<lparr>Key = ''ipsw-vault'', Data = ''a:b'', Label = ''ipsw'',
                                 Description = ''application password''\<rparr>),
     typed = [], vault_write_fails = False\<rparr>)"
  by (simp add: dev_defs desk_defs)


theorem preseeded_credentials_bypass_vault_witness:
  "username (settings0\<lparr>username := ''u'', password := ''p'', more_flag := True\<rparr>) \<noteq> [] \<and>
   password (settings0\<lparr>username := ''u'', password := ''p'', more_flag := True\<rparr>) \<noteq> [] \<and>
   devCmd_credentials desk_sys desk_ring ''u'' ''p'' ([], desk0) = (Next (''u'', ''p''), ([], desk0)) \<and>
   devCmd_RunE desk_sys (settings0\<lparr>username := ''u'', password := ''p'', more_flag := True\<rparr>)
     (desk0\<lparr>vault_file := Some (''pw'', \<lparr>Key = ''ipsw-vault'', Data = ''a:b'', Label = ''ipsw'',
                                          Description = ''application password''\<rparr>)\<rparr>) =
   (Return None,
    \<lparr>events = [E_UserHomeDir, E_keyring_Open ''/home/u/.ipsw'', E_NewDevPortal,
               E_Login ''u'' ''p'', E_DownloadPrompt ''more''],
     vault_file = Some (''pw'', \<lparr>Key = ''ipsw-vault'', Data = ''a:b'', Label = ''ipsw'',
                                 Description = ''application password''\<rparr>),
     typed = [], vault_write_fails = False\<rparr>) \<and>
   devCmd_RunE (desk_sys\<lparr>ring_Get := (\<lambda>cfg k s. (Exited 1, s)),
                          ring_Set := (\<lambda>cfg item s. (Exited 1, s))\<rparr>)
     (settings0\<lparr>username := ''u'', password := ''p'', more_flag := True\<rparr>)
     (desk0\<lparr>vault_file := Some (''pw'', \<lparr>Key = ''ipsw-vault'', Data = ''a:b'', Label = ''ipsw'',
                                          Description = ''application password''\<rparr>)\<rparr>) =
   (Return None,
    \<lparr>events = [E_UserHomeDir, E_keyring_Open ''/home/u/.ipsw'', E_NewDevPortal,
               E_Login ''u'' ''p'', E_DownloadPrompt ''more''],
     vault_file = Some (''pw'', \<lparr>Key = ''ipsw-vault'', Data = ''a:b'', Label = ''ipsw'',
                                 Description = ''application password''\<rparr>),
     typed = [], vault_write_fails = False\<rparr>)"
proof -
  let ?st = "settings0\<lparr>username := ''u'', password := ''p'', more_flag := True\<rparr>"
  have u: "username ?st \<noteq> []" and p: "password ?st \<noteq> []"
    by (simp_all add: settings0_def)
  have eu: "username ?st = ''u''" and ep: "password ?st = ''p''"
    by (simp_all add: settings0_def)
  note T = preseeded_credentials_bypass_vault [OF u p]
  have 1: "devCmd_credentials desk_sys desk_ring ''u'' ''p'' ([], desk0)
             = (Next (''u'', ''p''), ([], desk0))"
    using T [of desk_sys desk_ring "([], desk0)", THEN conjunct1] by (simp only: eu ep)
  have 2: "devCmd_RunE (desk_sys\<lparr>ring_Get := G, ring_Set := H\<rparr>) ?st w = devCmd_RunE desk_sys ?st w"
    for G H w
    by (rule T [THEN conjunct2, THEN conjunct1])
  have 3: "devCmd_RunE (desk_sys\<lparr>ring_Get := (\<lambda>cfg k s. (Exited 1, s)),
                                   ring_Set := (\<lambda>cfg item s. (Exited 1, s))\<rparr>) ?st
             (desk0\<lparr>vault_file := Some (''pw'', \<lparr>Key = ''ipsw-vault'', Data = ''a:b'', Label = ''ipsw'',
                                          Description = ''application password''\<rparr>)\<rparr>) =
   (Return None,
    \<lparr>events = [E_UserHomeDir, E_keyring_Open ''/home/u/.ipsw'', E_NewDevPortal,
               E_Login ''u'' ''p'', E_DownloadPrompt ''more''],
     vault_file = Some (''pw'', \<lparr>Key = ''ipsw-vault'', Data = ''a:b'', Label = ''ipsw'',
                                 Description = ''application password''\<rparr>),
     typed = [], vault_write_fails = False\<rparr>)"
    unfolding 2 by (rule run_preseeded)
  from u p 1 run_preseeded 3 show ?thesis by blast
qed










text \<open>
  The file name of the JSON listing, for every environment. The download type that
  lines 228-246 compute is the one lines 248-253 put into the name: it is
  \<^verbatim>\<open>more\<close> when the more flag is set, and without the flag it is \<^verbatim>\<open>more\<close> when the
  answer of the prompt contains \<^verbatim>\<open>More\<close> and the answer itself otherwise. Line 243 is
  the only place where an answer is replaced by a short tag.
\<close>

lemma devCmd_dlType_flag:
  "devCmd_dlType env True w = (Next ''more'', w)"
  by (simp add: devCmd_dlType_def)

lemma devCmd_dlType_prompt:
  assumes "survey_AskOne env
             (survey_Select ''Choose a download type:''
                [''OSes (iOS, macOS, tvOS...)'', ''More (XCode, KDKs...)'']) w = (Inr choice, w')"
  shows "devCmd_dlType env False w =
           (Next (if strings_Contains choice ''More'' then ''more'' else choice), w')"
  using assms by (simp add: devCmd_dlType_def AskOne_or_leave_def)

lemma devCmd_after_login_json_file:
  assumes "(if length (watchList st) > 0 then app_Watch env w1 else (None, w1)) = (None, w2)"
      and "devCmd_dlType env (more_flag st) w2 = (Next dlType, w3)"
      and "asJSON st" and "output_dir st \<noteq> []"
      and "app_GetDownloadsAsJSON env dlType (prettyJSON st) w3 = (Inr dat, w4)"
  shows "devCmd_after_login env st w1 =
           (case os_WriteFile env
                   (filepath_Join env [output_dir st, ''dev_portal_'' @ dlType @ ''.json'']) dat 432
                   (log_Infof env
                      (''Creating ''
                         @ filepath_Join env [output_dir st, ''dev_portal_'' @ dlType @ ''.json''])
                      w4) of
              (Some err, w5) \<Rightarrow> (Return (Some err), w5)
            | (None, w5) \<Rightarrow> (Return None, w5))"
  using assms by (simp add: devCmd_after_login_def devCmd_output_def Let_def)

text \<open>
  Claim C2 fails on the code. Without the more flag the download type is the answer
  of the prompt, and line 243 replaces it by a short tag only when it contains
  \<^verbatim>\<open>More\<close>: with the second option chosen, JSON output into the directory \<^verbatim>\<open>out\<close> is
  written to \<^verbatim>\<open>out/dev_portal_more.json\<close>. The first option has no such line: with it
  chosen, the same run writes the file named after the whole label of the option,
  \<^verbatim>\<open>out/dev_portal_OSes (iOS, macOS, tvOS...).json\<close>, which is neither
  \<^verbatim>\<open>dev_portal_os.json\<close> nor \<^verbatim>\<open>dev_portal_more.json\<close>.
\<close>

theorem dev_portal_json_named_after_option_label:
  "devCmd_RunE desk_sys
     (settings0\<lparr>username := ''u'', password := ''p'', asJSON := True, output_dir := ''out''\<rparr>)
     (desk0\<lparr>typed := [Inr ''OSes (iOS, macOS, tvOS...)'']\<rparr>) =
   (Return None,
    \<lparr>events =
       [E_UserHomeDir, E_keyring_Open ''/home/u/.ipsw'', E_NewDevPortal, E_Login ''u'' ''p'',
        E_AskOne (survey_Select ''Choose a download type:''
                    [''OSes (iOS, macOS, tvOS...)'', ''More (XCode, KDKs...)'']),
        E_GetDownloadsAsJSON ''OSes (iOS, macOS, tvOS...)'' False,
        E_Infof ''Creating out/dev_portal_OSes (iOS, macOS, tvOS...).json'',
        E_WriteFile ''out/dev_portal_OSes (iOS, macOS, tvOS...).json'' ''[]'' 432],
     vault_file = None, typed = [], vault_write_fails = False\<rparr>) \<and>
   ''out/dev_portal_OSes (iOS, macOS, tvOS...).json'' \<noteq> desk_Join [''out'', ''dev_portal_os.json''] \<and>
   ''out/dev_portal_OSes (iOS, macOS, tvOS...).json'' \<noteq> desk_Join [''out'', ''dev_portal_more.json''] \<and>
   devCmd_RunE desk_sys
     (settings0\<lparr>username := ''u'', password := ''p'', asJSON := True, output_dir := ''out''\<rparr>)
     (desk0\<lparr>typed := [Inr ''More (XCode, KDKs...)'']\<rparr>) =
   (Return None,
    \<lparr>events =
       [E_UserHomeDir, E_keyring_Open ''/home/u/.ipsw'', E_NewDevPortal, E_Login ''u'' ''p'',
        E_AskOne (survey_Select ''Choose a download type:''
                    [''OSes (iOS, macOS, tvOS...)'', ''More (XCode, KDKs...)'']),
        E_GetDownloadsAsJSON ''more'' False,
        E_Infof ''Creating out/dev_portal_more.json'',
        E_WriteFile ''out/dev_portal_more.json'' ''[]'' 432],
     vault_file = None, typed = [], vault_write_fails = False\<rparr>) \<and>
   devCmd_RunE desk_sys
     (settings0\<lparr>username := ''u'', password := ''p'', asJSON := True, output_dir := ''out'',
                more_flag := True\<rparr>)
     desk0 =
   (Return None,
    \<lparr>events =
       [E_UserHomeDir, E_keyring_Open ''/home/u/.ipsw'', E_NewDevPortal, E_Login ''u'' ''p'',
        E_GetDownloadsAsJSON ''more'' False,
        E_Infof ''Creating out/dev_portal_more.json'',
        E_WriteFile ''out/dev_portal_more.json'' ''[]'' 432],
     vault_file = None, typed = [], vault_write_fails = False\<rparr>)"
  by (simp add: dev_defs desk_defs Let_def)

end
